theory Spec2Isabelle
  imports Main "HOL-Library.Word"
begin

section \<open>JavaScript strings and the built-ins the two chat demos use\<close>

text \<open>
  A JavaScript string is a sequence of UTF-16 code units; \<open>length\<close> counts code units.
  ASCII literals of the source are written with \<open>str\<close>; Thai text and emoji are given by
  their code units.
\<close>

type_synonym jsstring = "16 word list"

definition str :: "string \<Rightarrow> jsstring" where
  "str s = map (\<lambda>c. of_nat (of_char c)) s"

text \<open>\<open>s.startsWith(p)\<close> and \<open>s.includes(p)\<close> (\<open>includesStr\<close>).\<close>

fun startsWith :: "jsstring \<Rightarrow> jsstring \<Rightarrow> bool" where
  "startsWith s [] = True"
| "startsWith [] (p # ps) = False"
| "startsWith (c # cs) (p # ps) = (c = p \<and> startsWith cs ps)"

fun includesStr :: "jsstring \<Rightarrow> jsstring \<Rightarrow> bool" where
  "includesStr [] p = (p = [])"
| "includesStr (c # cs) p = (startsWith (c # cs) p \<or> includesStr cs p)"

text \<open>
  \<open>s.trim()\<close> removes white space and line terminators from both ends: TAB, LF, VT, FF, CR,
  SP, NBSP, U+1680, U+2000..U+200A, U+2028, U+2029, U+202F, U+205F, U+3000 and U+FEFF.
\<close>

definition isWhiteSpace :: "16 word \<Rightarrow> bool" where
  "isWhiteSpace c =
     (c \<in> {0x0009, 0x000A, 0x000B, 0x000C, 0x000D, 0x0020, 0x00A0, 0x1680, 0x2028, 0x2029,
            0x202F, 0x205F, 0x3000, 0xFEFF}
      \<or> (0x2000 \<le> c \<and> c \<le> 0x200A))"

definition trim :: "jsstring \<Rightarrow> jsstring" where
  "trim s = rev (dropWhile isWhiteSpace (rev (dropWhile isWhiteSpace s)))"

text \<open>
  \<open>s.replaceAll(pat, rep)\<close> for a string pattern: the occurrences of \<open>pat\<close> are found from
  left to right without overlap; an empty pattern matches between all code units. The
  replacements of the source contain no \<open>$\<close>, so they are inserted literally.
\<close>

function replaceAll :: "jsstring \<Rightarrow> jsstring \<Rightarrow> jsstring \<Rightarrow> jsstring" where
  "replaceAll pat rep s =
     (if pat = [] then rep @ concat (map (\<lambda>c. c # rep) s)
      else if s = [] then []
      else if startsWith s pat then rep @ replaceAll pat rep (drop (length pat) s)
      else hd s # replaceAll pat rep (tl s))"
  by pat_completeness auto
termination
  by (relation "measure (\<lambda>(pat, rep, s). length s)") auto

declare replaceAll.simps [simp del]

text \<open>
  What a handler reads from its environment: \<open>Date.now()\<close>, the string that
  \<open>formatTime()\<close> returns, and the draw of \<open>Math.random()\<close>, a double \<open>m / 2^53\<close> in
  \<open>[0, 1)\<close> given by \<open>m\<close>.
\<close>

record env =
  nowMs :: nat
  timeStr :: jsstring
  random53 :: nat

text \<open>
  \<open>Math.floor(Math.random() * n)\<close> for a whole number \<open>n\<close>. The exact product is
  \<open>q / 2^53\<close> with \<open>q = m * n\<close>; the product of the two doubles is the double nearest
  to it, that is \<open>q\<close> rounded to 53 significant bits, ties to the even significand,
  over \<open>2^53\<close>; \<open>Math.floor\<close> is exact.
\<close>

function bitLength :: "nat \<Rightarrow> nat" where
  "bitLength n = (if n = 0 then 0 else Suc (bitLength (n div 2)))"
  by pat_completeness auto
termination
  by (relation "measure id") auto

declare bitLength.simps [simp del]

definition roundToDouble :: "nat \<Rightarrow> nat" where
  "roundToDouble q =
     (let d = 2 ^ (bitLength q - 53); lo = q div d; r = q mod d
      in if 2 * r < d \<or> (2 * r = d \<and> even lo) then lo * d else Suc lo * d)"

definition floorRandomTimes :: "env \<Rightarrow> nat \<Rightarrow> nat" where
  "floorRandomTimes e n = roundToDouble (random53 e mod 2 ^ 53 * n) div 2 ^ 53"

datatype js_error = StorageError | TypeError

text \<open>
  \<open>localStorage\<close>: a key-value store whose reads and writes may throw (storage disabled,
  quota exceeded). \<open>getItem\<close> gives \<open>null\<close> (\<open>None\<close>) for an absent key.
\<close>

record kvstore =
  items :: "jsstring \<rightharpoonup> jsstring"
  getThrows :: "jsstring \<Rightarrow> bool"
  setThrows :: "jsstring \<Rightarrow> bool"

definition getItem :: "kvstore \<Rightarrow> jsstring \<Rightarrow> js_error + jsstring option" where
  "getItem s k = (if getThrows s k then Inl StorageError else Inr (items s k))"

definition setItem :: "kvstore \<Rightarrow> jsstring \<Rightarrow> jsstring \<Rightarrow> js_error + kvstore" where
  "setItem s k v = (if setThrows s k then Inl StorageError else Inr (s\<lparr>items := (items s)(k \<mapsto> v)\<rparr>))"

text \<open>\<open>x || d\<close> on the result of \<open>getItem\<close>: \<open>null\<close> and the empty string are falsy.\<close>

definition orDefault :: "jsstring option \<Rightarrow> jsstring \<Rightarrow> jsstring" where
  "orDefault x d = (case x of None \<Rightarrow> d | Some v \<Rightarrow> if v = [] then d else v)"

text \<open>
  \<open>obj[key]\<close> on an object literal: an own property, else a member inherited from
  \<open>Object.prototype\<close>, else \<open>undefined\<close>.
\<close>

definition objectPrototypeKeys :: "jsstring list" where
  "objectPrototypeKeys = map str
     [''constructor'', ''__defineGetter__'', ''__defineSetter__'', ''hasOwnProperty'',
      ''__lookupGetter__'', ''__lookupSetter__'', ''isPrototypeOf'', ''propertyIsEnumerable'',
      ''toString'', ''valueOf'', ''__proto__'', ''toLocaleString'']"

datatype 'a property = Own 'a | Inherited jsstring | Undefined

definition getProperty :: "(jsstring \<times> 'a) list \<Rightarrow> jsstring \<Rightarrow> 'a property" where
  "getProperty obj k =
     (case map_of obj k of
        Some v \<Rightarrow> Own v
      | None \<Rightarrow> if k \<in> set objectPrototypeKeys then Inherited k else Undefined)"

datatype role = User | Bot

section \<open>The chat simulator: \<open>examples/chat-simulator/app.js\<close>\<close>

subsection \<open>String literals of the source\<close>

definition kw_price :: jsstring where
  "kw_price =
    [0x0E23, 0x0E32, 0x0E04, 0x0E32]"

definition kw_howmuch :: jsstring where
  "kw_howmuch =
    [0x0E40, 0x0E17, 0x0E48, 0x0E32, 0x0E44, 0x0E2B, 0x0E23, 0x0E48]"

definition kw_help :: jsstring where
  "kw_help =
    [0x0E0A, 0x0E48, 0x0E27, 0x0E22]"

definition kw_how :: jsstring where
  "kw_how =
    [0x0E2D, 0x0E22, 0x0E48, 0x0E32, 0x0E07, 0x0E44, 0x0E23]"

definition kw_dark :: jsstring where
  "kw_dark =
    [0x0E21, 0x0E37, 0x0E14]"

definition kw_light :: jsstring where
  "kw_light =
    [0x0E2A, 0x0E27, 0x0E48, 0x0E32, 0x0E07]"

definition reply_pricing :: jsstring where
  "reply_pricing =
    [0x0E41, 0x0E1E, 0x0E47, 0x0E01, 0x0E40, 0x0E01, 0x0E08, 0x0E40, 0x0E23, 0x0E34, 0x0E48,
     0x0E21, 0x0E15, 0x0E49, 0x0E19, 0x0E17, 0x0E35, 0x0E48, 0x0020, 0x0032, 0x0039, 0x0039,
     0x0020, 0x0E1A, 0x0E32, 0x0E17, 0x002F, 0x0E40, 0x0E14, 0x0E37, 0x0E2D, 0x0E19, 0x0020,
     0x0E41, 0x0E25, 0x0E30, 0x0E21, 0x0E35, 0x0E40, 0x0E27, 0x0E2D, 0x0E23, 0x0E4C, 0x0E0A,
     0x0E31, 0x0E19, 0x0E17, 0x0E14, 0x0E25, 0x0E2D, 0x0E07, 0x0E43, 0x0E0A, 0x0E49, 0x0E07,
     0x0E32, 0x0E19, 0x0E1F, 0x0E23, 0x0E35, 0x0E04, 0x0E48, 0x0E30]"

definition reply_help :: jsstring where
  "reply_help =
    [0x0E09, 0x0E31, 0x0E19, 0x0E0A, 0x0E48, 0x0E27, 0x0E22, 0x0E15, 0x0E2D, 0x0E1A, 0x0E04,
     0x0E33, 0x0E16, 0x0E32, 0x0E21, 0x0020, 0x0E41, 0x0E19, 0x0E30, 0x0E19, 0x0E33, 0x0E01,
     0x0E32, 0x0E23, 0x0E43, 0x0E0A, 0x0E49, 0x0E07, 0x0E32, 0x0E19, 0x0020, 0x0E41, 0x0E25,
     0x0E30, 0x0E2A, 0x0E48, 0x0E07, 0x0E15, 0x0E48, 0x0E2D, 0x0E43, 0x0E2B, 0x0E49, 0x0E17,
     0x0E35, 0x0E21, 0x0E07, 0x0E32, 0x0E19, 0x0E44, 0x0E14, 0x0E49, 0x0E04, 0x0E48, 0x0E30]"

definition reply_theme :: jsstring where
  "reply_theme =
    [0x0E2A, 0x0E25, 0x0E31, 0x0E1A, 0x0E18, 0x0E35, 0x0E21, 0x0E43, 0x0E2B, 0x0E49, 0x0E41,
     0x0E25, 0x0E49, 0x0E27, 0x0E04, 0x0E48, 0x0E30, 0x0020, 0x2728]"

definition fb0 :: jsstring where
  "fb0 =
    [0x0E23, 0x0E31, 0x0E1A, 0x0E17, 0x0E23, 0x0E32, 0x0E1A, 0x0E04, 0x0E48, 0x0E30, 0x0020,
     0x0E21, 0x0E35, 0x0E23, 0x0E32, 0x0E22, 0x0E25, 0x0E30, 0x0E40, 0x0E2D, 0x0E35, 0x0E22,
     0x0E14, 0x0E40, 0x0E1E, 0x0E34, 0x0E48, 0x0E21, 0x0E40, 0x0E15, 0x0E34, 0x0E21, 0x0E44,
     0x0E2B, 0x0E21, 0x0E04, 0x0E30, 0x003F]"

definition fb1 :: jsstring where
  "fb1 =
    [0x0E02, 0x0E2D, 0x0E02, 0x0E49, 0x0E2D, 0x0E21, 0x0E39, 0x0E25, 0x0E40, 0x0E1E, 0x0E34,
     0x0E48, 0x0E21, 0x0E2D, 0x0E35, 0x0E01, 0x0E19, 0x0E34, 0x0E14, 0x0020, 0x0E40, 0x0E1E,
     0x0E37, 0x0E48, 0x0E2D, 0x0E0A, 0x0E48, 0x0E27, 0x0E22, 0x0E04, 0x0E38, 0x0E13, 0x0E44,
     0x0E14, 0x0E49, 0x0E14, 0x0E35, 0x0E01, 0x0E27, 0x0E48, 0x0E32, 0x0E19, 0x0E35, 0x0E49,
     0x0E04, 0x0E48, 0x0E30]"

definition fb2 :: jsstring where
  "fb2 =
    [0x0E42, 0x0E2D, 0x0E40, 0x0E04, 0x0E04, 0x0E48, 0x0E30, 0x0020, 0x0E40, 0x0E14, 0x0E35,
     0x0E4B, 0x0E22, 0x0E27, 0x0E0A, 0x0E48, 0x0E27, 0x0E22, 0x0E04, 0x0E49, 0x0E19, 0x0E2B,
     0x0E32, 0x0E04, 0x0E33, 0x0E15, 0x0E2D, 0x0E1A, 0x0E43, 0x0E2B, 0x0E49, 0x0E19, 0x0E30,
     0x0E04, 0x0E30]"

definition intro0 :: jsstring where
  "intro0 =
    [0x0E2A, 0x0E27, 0x0E31, 0x0E2A, 0x0E14, 0x0E35, 0x0E04, 0x0E48, 0x0E30, 0x0021, 0x0020,
     0x0E09, 0x0E31, 0x0E19, 0x0E04, 0x0E37, 0x0E2D, 0x0E41, 0x0E0A, 0x0E17, 0x0E1A, 0x0E2D,
     0x0E17, 0x0020, 0x0E0A, 0x0E48, 0x0E27, 0x0E22, 0x0E2D, 0x0E30, 0x0E44, 0x0E23, 0x0E04,
     0x0E38, 0x0E13, 0x0E44, 0x0E14, 0x0E49, 0x0E1A, 0x0E49, 0x0E32, 0x0E07, 0x0E04, 0x0E30,
     0x003F]"

definition intro1 :: jsstring where
  "intro1 =
    [0x0E2D, 0x0E22, 0x0E32, 0x0E01, 0x0E23, 0x0E39, 0x0E49, 0x0E27, 0x0E48, 0x0E32, 0x0E1F,
     0x0E35, 0x0E40, 0x0E08, 0x0E2D, 0x0E23, 0x0E4C, 0x0E21, 0x0E35, 0x0E2D, 0x0E30, 0x0E44,
     0x0E23, 0x0E1A, 0x0E49, 0x0E32, 0x0E07]"

definition intro2 :: jsstring where
  "intro2 =
    [0x0E40, 0x0E23, 0x0E32, 0x0E21, 0x0E35, 0x0E01, 0x0E32, 0x0E23, 0x0E15, 0x0E2D, 0x0E1A,
     0x0E2D, 0x0E31, 0x0E15, 0x0E42, 0x0E19, 0x0E21, 0x0E31, 0x0E15, 0x0E34, 0x0020, 0x0E42,
     0x0E2B, 0x0E21, 0x0E14, 0x0E2A, 0x0E27, 0x0E48, 0x0E32, 0x0E07, 0x002F, 0x0E21, 0x0E37,
     0x0E14, 0x0020, 0x0E41, 0x0E25, 0x0E30, 0x0E01, 0x0E32, 0x0E23, 0x0E1E, 0x0E34, 0x0E21,
     0x0E1E, 0x0E4C, 0x0E41, 0x0E1A, 0x0E1A, 0x0E2A, 0x0E21, 0x0E08, 0x0E23, 0x0E34, 0x0E07,
     0x0E04, 0x0E48, 0x0E30]"

definition faq0 :: jsstring where
  "faq0 =
    [0x0E02, 0x0E2D, 0x0E0A, 0x0E48, 0x0E27, 0x0E22, 0x0E15, 0x0E2D, 0x0E1A, 0x0E04, 0x0E33,
     0x0E16, 0x0E32, 0x0E21, 0x0E17, 0x0E35, 0x0E48, 0x0E1E, 0x0E1A, 0x0E1A, 0x0E48, 0x0E2D,
     0x0E22]"

definition faq1 :: jsstring where
  "faq1 =
    [0x0E41, 0x0E19, 0x0E48, 0x0E19, 0x0E2D, 0x0E19, 0x0E04, 0x0E48, 0x0E30, 0x0021, 0x0020,
     0x0031, 0x0029, 0x0020, 0x0E40, 0x0E27, 0x0E25, 0x0E32, 0x0E17, 0x0E33, 0x0E01, 0x0E32,
     0x0E23, 0x0020, 0x0039, 0x003A, 0x0030, 0x0030, 0x002D, 0x0031, 0x0038, 0x003A, 0x0030,
     0x0030, 0x0020, 0x0E19, 0x002E, 0x0020, 0x0E08, 0x002E, 0x002D, 0x0E28, 0x002E, 0x0020,
     0x0032, 0x0029, 0x0020, 0x0E15, 0x0E34, 0x0E14, 0x0E15, 0x0E48, 0x0E2D, 0x0E17, 0x0E35,
     0x0E21, 0x0E07, 0x0E32, 0x0E19, 0x0E44, 0x0E14, 0x0E49, 0x0E17, 0x0E32, 0x0E07, 0x0E2D,
     0x0E35, 0x0E40, 0x0E21, 0x0E25, 0x0020, 0x0073, 0x0075, 0x0070, 0x0070, 0x006F, 0x0072,
     0x0074, 0x0040, 0x0065, 0x0078, 0x0061, 0x006D, 0x0070, 0x006C, 0x0065, 0x002E, 0x0063,
     0x006F, 0x006D]"

definition handoff0 :: jsstring where
  "handoff0 =
    [0x0E2D, 0x0E22, 0x0E32, 0x0E01, 0x0E04, 0x0E38, 0x0E22, 0x0E01, 0x0E31, 0x0E1A, 0x0E40,
     0x0E08, 0x0E49, 0x0E32, 0x0E2B, 0x0E19, 0x0E49, 0x0E32, 0x0E17, 0x0E35, 0x0E48, 0x0E04,
     0x0E48, 0x0E30]"

definition handoff1 :: jsstring where
  "handoff1 =
    [0x0E44, 0x0E14, 0x0E49, 0x0E40, 0x0E25, 0x0E22, 0x0E04, 0x0E48, 0x0E30, 0x0020, 0x0E01,
     0x0E33, 0x0E25, 0x0E31, 0x0E07, 0x0E42, 0x0E2D, 0x0E19, 0x0E43, 0x0E2B, 0x0E49, 0x0E40,
     0x0E08, 0x0E49, 0x0E32, 0x0E2B, 0x0E19, 0x0E49, 0x0E32, 0x0E17, 0x0E35, 0x0E48, 0x0020,
     0x0E42, 0x0E1B, 0x0E23, 0x0E14, 0x0E23, 0x0E2D, 0x0E2A, 0x0E31, 0x0E01, 0x0E04, 0x0E23,
     0x0E39, 0x0E48, 0x002E, 0x002E, 0x002E]"

definition greeting_app :: jsstring where
  "greeting_app =
    [0x0E2A, 0x0E27, 0x0E31, 0x0E2A, 0x0E14, 0x0E35, 0x0E04, 0x0E48, 0x0E30, 0x0021, 0x0020,
     0x0E40, 0x0E23, 0x0E34, 0x0E48, 0x0E21, 0x0E04, 0x0E38, 0x0E22, 0x0E01, 0x0E31, 0x0E1A,
     0x0E09, 0x0E31, 0x0E19, 0x0E44, 0x0E14, 0x0E49, 0x0E40, 0x0E25, 0x0E22, 0x0020, 0xD83D,
     0xDC4B]"

definition avatar_user_app :: jsstring where
  "avatar_user_app =
    [0xD83D, 0xDE42]"

definition avatar_bot :: jsstring where
  "avatar_bot =
    [0xD83E, 0xDD16]"

definition label_user :: jsstring where
  "label_user =
    [0x0E04, 0x0E38, 0x0E13]"

definition label_bot_app :: jsstring where
  "label_bot_app =
    [0x0E1A, 0x0E2D, 0x0E17]"

definition sep_app :: jsstring where
  "sep_app =
    [0x0020, 0x2022, 0x0020]"

definition fallbacks :: "jsstring list" where
  "fallbacks = [fb0, fb1, fb2]"

type_synonym step = "role \<times> jsstring"

definition scripts :: "(jsstring \<times> step list) list" where
  "scripts =
     [(str ''intro'', [(Bot, intro0), (User, intro1), (Bot, intro2)]),
      (str ''faq'', [(User, faq0), (Bot, faq1)]),
      (str ''handoff'', [(User, handoff0), (Bot, handoff1)])]"

subsection \<open>DOM nodes built by \<open>el\<close>\<close>

text \<open>
  An element has a tag, a class name, further attributes and children; a text node holds
  its data as it is (\<open>document.createTextNode\<close> parses nothing).
\<close>

datatype dom = Element string string "(string \<times> string) list" "dom list" | TextNode jsstring

datatype child = ChildNode dom | ChildText jsstring | ChildNull

fun childNodes :: "child \<Rightarrow> dom list" where
  "childNodes (ChildNode d) = [d]"
| "childNodes (ChildText s) = [TextNode s]"
| "childNodes ChildNull = []"

text \<open>
  \<open>el(tag, attrs, children)\<close>: the key \<open>class\<close> sets the class name, every other
  attribute of the source is a string and is set with \<open>setAttribute\<close>; a child that is not a
  node becomes a text node, \<open>null\<close> is skipped. A single child is passed as a one-element
  list.
\<close>

definition el :: "string \<Rightarrow> (string \<times> string) list \<Rightarrow> child list \<Rightarrow> dom" where
  "el tag attrs children =
     Element tag (case map_of attrs ''class'' of Some v \<Rightarrow> v | None \<Rightarrow> [])
       (filter (\<lambda>(k, v). k \<noteq> ''class'') attrs)
       (concat (map childNodes children))"

definition typingDots :: dom where
  "typingDots =
     el ''span'' [(''class'', ''typing''), (''aria-hidden'', ''true'')]
       [ChildNode (el ''span'' [(''class'', ''dot'')] []),
        ChildNode (el ''span'' [(''class'', ''dot'')] []),
        ChildNode (el ''span'' [(''class'', ''dot'')] [])]"

text \<open>The node \<open>msg\<close> that \<open>appendMessage\<close> builds, and the one of \<open>appendTyping\<close>.\<close>

definition messageEl :: "role \<Rightarrow> jsstring \<Rightarrow> jsstring \<Rightarrow> dom" where
  "messageEl r text time =
     (let isUser = (r = User);
          avatar = (if isUser then avatar_user_app else avatar_bot)
      in el ''div'' [(''class'', ''message '' @ (if isUser then ''user'' else ''bot''))]
           [ChildNode (el ''div'' [(''class'', ''avatar''), (''aria-hidden'', ''true'')]
              [ChildText avatar]),
            ChildNode (el ''div'' [(''class'', ''content'')]
              [ChildNode (el ''div'' [(''class'', ''bubble'')] [ChildText text]),
               ChildNode (el ''div'' [(''class'', ''meta'')]
                 [ChildText ((if isUser then label_user else label_bot_app) @ sep_app @ time)])])])"

definition typingRowEl :: "jsstring \<Rightarrow> dom" where
  "typingRowEl time =
     el ''div'' [(''class'', ''message bot typing-row'')]
       [ChildNode (el ''div'' [(''class'', ''avatar''), (''aria-hidden'', ''true'')]
          [ChildText avatar_bot]),
        ChildNode (el ''div'' [(''class'', ''content'')]
          [ChildNode (el ''div'' [(''class'', ''bubble'')] [ChildNode typingDots]),
           ChildNode (el ''div'' [(''class'', ''meta'')]
             [ChildText (label_bot_app @ sep_app @ time)])])]"

text \<open>Observers of a row of \<open>#chat\<close>: is it a typing row, and which message does it show.\<close>

fun classOf :: "dom \<Rightarrow> string" where
  "classOf (Element tag cls attrs kids) = cls"
| "classOf (TextNode s) = []"

definition isTypingRow :: "dom \<Rightarrow> bool" where
  "isTypingRow d = (classOf d = ''message bot typing-row'')"

fun bubbleText :: "dom \<Rightarrow> jsstring option" where
  "bubbleText (Element tag cls attrs [a, Element t2 c2 a2 (Element t3 c3 a3 [TextNode s] # rest)]) =
     (if c3 = ''bubble'' then Some s else None)"
| "bubbleText d = None"

definition rowMessage :: "dom \<Rightarrow> (role \<times> jsstring) option" where
  "rowMessage d =
     (if classOf d = ''message user'' then map_option (Pair User) (bubbleText d)
      else if classOf d = ''message bot'' then map_option (Pair Bot) (bubbleText d)
      else None)"

text \<open>The text nodes of a tree, and the tree with the data of its text nodes erased.\<close>

fun textNodes :: "dom \<Rightarrow> jsstring list" where
  "textNodes (TextNode s) = [s]"
| "textNodes (Element tag cls attrs kids) = concat (map textNodes kids)"

fun skeleton :: "dom \<Rightarrow> dom" where
  "skeleton (TextNode s) = TextNode []"
| "skeleton (Element tag cls attrs kids) = Element tag cls attrs (map skeleton kids)"

subsection \<open>The state and its operations\<close>

text \<open>
  A pending \<open>setTimeout\<close> of \<open>botReply\<close>: the typing row it will remove, the text it will
  show, its delay, and the script steps of the click handler that awaits this reply (none
  when the caller does not await).
\<close>

record timer =
  typingNode :: nat
  replyText :: jsstring
  delayMs :: nat
  awaiting :: "step list"

text \<open>
  The \<open>state\<close> object, the \<open>light\<close> class of the root element, the children of \<open>#chat\<close>
  (each with its node identity), the pending timers and \<open>localStorage\<close>.
\<close>

record app_state =
  theme :: jsstring
  history :: "(role \<times> jsstring \<times> nat) list"
  isBotTyping :: bool
  rootLight :: bool
  chat :: "(nat \<times> dom) list"
  nextNode :: nat
  timers :: "timer list"
  localStorage :: kvstore

definition applyTheme :: "jsstring \<Rightarrow> app_state \<Rightarrow> js_error option \<times> app_state" where
  "applyTheme th st =
     (let st1 = st\<lparr>rootLight := (th = str ''light''), theme := th\<rparr>
      in case setItem (localStorage st1) (str ''theme'') th of
           Inl err \<Rightarrow> (Some err, st1)
         | Inr store \<Rightarrow> (None, st1\<lparr>localStorage := store\<rparr>))"

definition toggleTheme :: "app_state \<Rightarrow> js_error option \<times> app_state" where
  "toggleTheme st = applyTheme (if theme st = str ''dark'' then str ''light'' else str ''dark'') st"

text \<open>\<open>appendMessage({ role, text })\<close>: \<open>time\<close> defaults to \<open>formatTime()\<close> in every call.\<close>

definition appendMessage :: "env \<Rightarrow> role \<Rightarrow> jsstring \<Rightarrow> app_state \<Rightarrow> app_state" where
  "appendMessage e r text st =
     st\<lparr>chat := chat st @ [(nextNode st, messageEl r text (timeStr e))],
        nextNode := Suc (nextNode st)\<rparr>"

definition appendTyping :: "env \<Rightarrow> app_state \<Rightarrow> nat \<times> app_state" where
  "appendTyping e st =
     (nextNode st,
      st\<lparr>chat := chat st @ [(nextNode st, typingRowEl (timeStr e))],
         nextNode := Suc (nextNode st)\<rparr>)"

definition botReplyDelay :: "jsstring \<Rightarrow> nat" where
  "botReplyDelay text = min 2000 (max 600 (length text * 40))"

text \<open>
  \<open>botReply(text)\<close> up to its \<open>await\<close>: it returns at once when a reply is being typed,
  else it shows the typing row and suspends on its timer.
\<close>

datatype 'a async = Returned 'a | Suspended 'a

fun stateOf :: "'a async \<Rightarrow> 'a" where
  "stateOf (Returned s) = s"
| "stateOf (Suspended s) = s"

definition botReply :: "env \<Rightarrow> jsstring \<Rightarrow> step list \<Rightarrow> app_state \<Rightarrow> app_state async" where
  "botReply e text cont st =
     (if isBotTyping st then Returned st
      else let st1 = st\<lparr>isBotTyping := True\<rparr>;
               (typingEl, st2) = appendTyping e st1;
               delay = botReplyDelay text
           in Suspended (st2\<lparr>timers := timers st2 @
                [\<lparr>typingNode = typingEl, replyText = text, delayMs = delay, awaiting = cont\<rparr>]\<rparr>))"

text \<open>The loop of the script buttons: \<open>for (const step of steps) ...\<close>.\<close>

fun playSteps :: "env \<Rightarrow> step list \<Rightarrow> app_state \<Rightarrow> app_state" where
  "playSteps e [] st = st"
| "playSteps e ((r, text) # rest) st =
     (if r = User then playSteps e rest (appendMessage e User text st)
      else case botReply e text rest st of
             Returned st' \<Rightarrow> playSteps e rest st'
           | Suspended st' \<Rightarrow> st')"


text \<open>
  \<open>handleUserSend(raw)\<close>; \<open>lc\<close> is \<open>String.prototype.toLowerCase\<close>. The result is the
  error that rejects the promise, if any, and the state.
\<close>

definition handleUserSend ::
  "(jsstring \<Rightarrow> jsstring) \<Rightarrow> env \<Rightarrow> jsstring \<Rightarrow> app_state \<Rightarrow> js_error option \<times> app_state" where
  "handleUserSend lc e raw st =
     (let text = trim raw
      in if text = [] then (None, st)
         else
           let st1 = appendMessage e User text st;
               st2 = st1\<lparr>history := history st1 @ [(User, text, nowMs e)]\<rparr>;
               lower = lc text
           in if includesStr lower kw_price \<or> includesStr lower kw_howmuch
              then (None, stateOf (botReply e reply_pricing [] st2))
              else if includesStr lower kw_help \<or> includesStr lower kw_how
              then (None, stateOf (botReply e reply_help [] st2))
              else if includesStr lower kw_dark \<or> includesStr lower kw_light
              then (case toggleTheme st2 of
                      (Some err, st3) \<Rightarrow> (Some err, st3)
                    | (None, st3) \<Rightarrow> (None, stateOf (botReply e reply_theme [] st3)))
              else
                let reply = fallbacks ! floorRandomTimes e (length fallbacks)
                in (None, stateOf (botReply e reply [] st2)))"

text \<open>The click handler of a script button with \<open>data-script = key\<close>.\<close>

definition scriptClick :: "env \<Rightarrow> jsstring \<Rightarrow> app_state \<Rightarrow> js_error option \<times> app_state" where
  "scriptClick e key st =
     (case getProperty scripts key of
        Own steps \<Rightarrow> (None, playSteps e steps st)
      | Undefined \<Rightarrow> (None, playSteps e [] st)
      | Inherited k \<Rightarrow> (Some TypeError, st))"



text \<open>The initialiser of \<open>state\<close> and \<open>init\<close>.\<close>

definition loadState :: "kvstore \<Rightarrow> js_error + app_state" where
  "loadState store =
     (case getItem store (str ''theme'') of
        Inl err \<Rightarrow> Inl err
      | Inr v \<Rightarrow>
          Inr \<lparr>theme = orDefault v (str ''dark''), history = [], isBotTyping = False,
               rootLight = False, chat = [], nextNode = 0, timers = [],
               localStorage = store\<rparr>)"

definition init :: "env \<Rightarrow> app_state \<Rightarrow> js_error option \<times> app_state" where
  "init e st =
     (case applyTheme (theme st) st of
        (Some err, st1) \<Rightarrow> (Some err, st1)
      | (None, st1) \<Rightarrow> (None, appendMessage e Bot greeting_app st1))"


section \<open>The conversation page (the second demo)\<close>

subsection \<open>String literals of the source\<close>

definition avatar_user_sim :: jsstring where
  "avatar_user_sim =
    [0xD83D, 0xDC64]"

definition label_bot_sim :: jsstring where
  "label_bot_sim =
    [0x0E41, 0x0E0A, 0x0E17, 0x0E1A, 0x0E2D, 0x0E17]"

definition sep_sim :: jsstring where
  "sep_sim =
    [0x0020, 0x00B7, 0x0020]"

definition typing_meta_sim :: jsstring where
  "typing_meta_sim =
    [0x0E01, 0x0E33, 0x0E25, 0x0E31, 0x0E07, 0x0E1E, 0x0E34, 0x0E21, 0x0E1E, 0x0E4C, 0x2026]"

definition label_light :: jsstring where
  "label_light =
    [0x0E42, 0x0E2B, 0x0E21, 0x0E14, 0x0E2A, 0x0E27, 0x0E48, 0x0E32, 0x0E07]"

definition label_dark :: jsstring where
  "label_dark =
    [0x0E42, 0x0E2B, 0x0E21, 0x0E14, 0x0E21, 0x0E37, 0x0E14]"

definition friendly_pre :: jsstring where
  "friendly_pre =
    [0x0E44, 0x0E14, 0x0E49, 0x0E40, 0x0E25, 0x0E22, 0x0E04, 0x0E23, 0x0E31, 0x0E1A, 0x0020,
     0xD83D, 0xDE0A, 0x0020, 0x0020]"

definition friendly_post :: jsstring where
  "friendly_post =
    [0x000A, 0x0E19, 0x0E35, 0x0E48, 0x0E04, 0x0E37, 0x0E2D, 0x0E04, 0x0E33, 0x0E15, 0x0E2D,
     0x0E1A, 0x0E41, 0x0E1A, 0x0E1A, 0x0E40, 0x0E1B, 0x0E47, 0x0E19, 0x0E01, 0x0E31, 0x0E19,
     0x0E40, 0x0E2D, 0x0E07, 0x0E41, 0x0E25, 0x0E30, 0x0E0A, 0x0E48, 0x0E27, 0x0E22, 0x0E40,
     0x0E2B, 0x0E25, 0x0E37, 0x0E2D, 0x0E01, 0x0E31, 0x0E19, 0x0E2A, 0x0E38, 0x0E14, 0x0E46,
     0x0021]"

definition professional_pre :: jsstring where
  "professional_pre =
    [0x0E23, 0x0E31, 0x0E1A, 0x0E17, 0x0E23, 0x0E32, 0x0E1A, 0x0E04, 0x0E23, 0x0E31, 0x0E1A,
     0x0020, 0x0E1C, 0x0E21, 0x0E08, 0x0E30, 0x0E0A, 0x0E48, 0x0E27, 0x0E22, 0x0E2D, 0x0E18,
     0x0E34, 0x0E1A, 0x0E32, 0x0E22, 0x0E2D, 0x0E22, 0x0E48, 0x0E32, 0x0E07, 0x0E40, 0x0E1B,
     0x0E47, 0x0E19, 0x0E02, 0x0E31, 0x0E49, 0x0E19, 0x0E15, 0x0E2D, 0x0E19, 0x003A, 0x000A,
     0x002D, 0x0020, 0x0E1B, 0x0E23, 0x0E30, 0x0E40, 0x0E14, 0x0E47, 0x0E19, 0x003A, 0x0020]"

definition professional_post :: jsstring where
  "professional_post =
    [0x000A, 0x002D, 0x0020, 0x0E17, 0x0E32, 0x0E07, 0x0E40, 0x0E25, 0x0E37, 0x0E2D, 0x0E01,
     0x003A, 0x0020, 0x0041, 0x002F, 0x0042, 0x000A, 0x002D, 0x0020, 0x0E04, 0x0E33, 0x0E41,
     0x0E19, 0x0E30, 0x0E19, 0x0E33, 0x003A, 0x0020, 0x0E40, 0x0E25, 0x0E37, 0x0E2D, 0x0E01,
     0x0E17, 0x0E35, 0x0E48, 0x0E2A, 0x0E2D, 0x0E14, 0x0E04, 0x0E25, 0x0E49, 0x0E2D, 0x0E07,
     0x0E01, 0x0E31, 0x0E1A, 0x0E40, 0x0E1B, 0x0E49, 0x0E32, 0x0E2B, 0x0E21, 0x0E32, 0x0E22]"

definition concise_post :: jsstring where
  "concise_post =
    [0x0020, 0x002D, 0x003E, 0x0020, 0x0E2A, 0x0E23, 0x0E38, 0x0E1B, 0x003A, 0x0020, 0x0E43,
     0x0E0A, 0x0E49, 0x0E17, 0x0E32, 0x0E07, 0x0E40, 0x0E25, 0x0E37, 0x0E2D, 0x0E01, 0x0E17,
     0x0E35, 0x0E48, 0x0E07, 0x0E48, 0x0E32, 0x0E22, 0x0E41, 0x0E25, 0x0E30, 0x0E0A, 0x0E31,
     0x0E14, 0x0E40, 0x0E08, 0x0E19, 0x0E17, 0x0E35, 0x0E48, 0x0E2A, 0x0E38, 0x0E14]"

definition helper_pre :: jsstring where
  "helper_pre =
    [0x0E16, 0x0E49, 0x0E32, 0x0E04, 0x0E38, 0x0E13, 0x0E2A, 0x0E19, 0x0E43, 0x0E08, 0x0E2A,
     0x0E34, 0x0E19, 0x0E04, 0x0E49, 0x0E32, 0x0E40, 0x0E01, 0x0E35, 0x0E48, 0x0E22, 0x0E27,
     0x0E01, 0x0E31, 0x0E1A, 0x0020, 0x0022]"

definition helper_post :: jsstring where
  "helper_post =
    [0x0022, 0x0020, 0x0E1C, 0x0E21, 0x0E41, 0x0E19, 0x0E30, 0x0E19, 0x0E33, 0x0E23, 0x0E38,
     0x0E48, 0x0E19, 0x0020, 0x0050, 0x0072, 0x006F, 0x0020, 0x0E0A, 0x0E48, 0x0E27, 0x0E22,
     0x0E1B, 0x0E23, 0x0E30, 0x0E2B, 0x0E22, 0x0E31, 0x0E14, 0x0E40, 0x0E27, 0x0E25, 0x0E32,
     0x0E41, 0x0E25, 0x0E30, 0x0E43, 0x0E0A, 0x0E49, 0x0E07, 0x0E32, 0x0E19, 0x0E07, 0x0E48,
     0x0E32, 0x0E22, 0x0E01, 0x0E27, 0x0E48, 0x0E32, 0x0E40, 0x0E14, 0x0E34, 0x0E21, 0x0E04,
     0x0E23, 0x0E31, 0x0E1A]"

definition welcome_sim :: jsstring where
  "welcome_sim =
    [0x0E2A, 0x0E27, 0x0E31, 0x0E2A, 0x0E14, 0x0E35, 0x0E04, 0x0E23, 0x0E31, 0x0E1A, 0x0020,
     0x0E22, 0x0E34, 0x0E19, 0x0E14, 0x0E35, 0x0E15, 0x0E49, 0x0E2D, 0x0E19, 0x0E23, 0x0E31,
     0x0E1A, 0x0E2A, 0x0E39, 0x0E48, 0x0E2B, 0x0E19, 0x0E49, 0x0E32, 0x0E40, 0x0E27, 0x0E47,
     0x0E1A, 0x0E08, 0x0E33, 0x0E25, 0x0E2D, 0x0E07, 0x0E01, 0x0E32, 0x0E23, 0x0E2A, 0x0E19,
     0x0E17, 0x0E19, 0x0E32, 0x0021, 0x0020, 0x0E25, 0x0E2D, 0x0E07, 0x0E1E, 0x0E34, 0x0E21,
     0x0E1E, 0x0E4C, 0x0E02, 0x0E49, 0x0E2D, 0x0E04, 0x0E27, 0x0E32, 0x0E21, 0x0E40, 0x0E1E,
     0x0E37, 0x0E48, 0x0E2D, 0x0E40, 0x0E23, 0x0E34, 0x0E48, 0x0E21, 0x0E15, 0x0E49, 0x0E19,
     0x0E44, 0x0E14, 0x0E49, 0x0E40, 0x0E25, 0x0E22, 0x0020, 0xD83C, 0xDF89]"

definition PRESET_BEHAVIORS :: "(jsstring \<times> (jsstring \<Rightarrow> jsstring)) list" where
  "PRESET_BEHAVIORS =
     [(str ''friendly'', \<lambda>text. friendly_pre @ text @ friendly_post),
      (str ''professional'', \<lambda>text. professional_pre @ text @ professional_post),
      (str ''concise'', \<lambda>text. text @ concise_post),
      (str ''helper'', \<lambda>text. helper_pre @ text @ helper_post)]"

subsection \<open>Rendering\<close>

definition escapeHtml :: "jsstring \<Rightarrow> jsstring" where
  "escapeHtml text =
     replaceAll (str ''>'') (str ''&gt;'')
       (replaceAll (str ''<'') (str ''&lt;'')
          (replaceAll (str ''&'') (str ''&amp;'') text))"

text \<open>An element made with \<open>document.createElement\<close> and filled through \<open>innerHTML\<close>.\<close>

record html_el =
  className :: jsstring
  innerHTML :: jsstring

text \<open>A line break of a template literal followed by \<open>n\<close> spaces of indentation.\<close>

definition indent :: "nat \<Rightarrow> jsstring" where
  "indent n = 0x000A # replicate n 0x0020"

definition roleName :: "role \<Rightarrow> jsstring" where
  "roleName r = (if r = User then str ''user'' else str ''bot'')"

text \<open>\<open>createMessageEl({ role, content, time })\<close>; every call of the source passes \<open>time\<close>.\<close>

definition createMessageEl :: "role \<Rightarrow> jsstring \<Rightarrow> jsstring \<Rightarrow> html_el" where
  \<open>createMessageEl r content time =
     (let safe = escapeHtml content
      in \<lparr>className = str ''msg '' @ roleName r,
          innerHTML =
            indent 4 @ str ''<div class="avatar">''
              @ (if r = User then avatar_user_sim else avatar_bot) @ str ''</div>''
            @ indent 4 @ str ''<div>''
            @ indent 6 @ str ''<div class="bubble">'' @ safe @ str ''</div>''
            @ indent 6 @ str ''<div class="meta">''
              @ (if r = User then label_user else label_bot_sim) @ sep_sim @ time @ str ''</div>''
            @ indent 4 @ str ''</div>''
            @ indent 2\<rparr>)\<close>

definition createTypingEl :: html_el where
  \<open>createTypingEl =
     \<lparr>className = str ''msg bot'',
      innerHTML =
        indent 4 @ str ''<div class="avatar">'' @ avatar_bot @ str ''</div>''
        @ indent 4 @ str ''<div>''
        @ indent 6 @ str ''<div class="bubble"><span class="typing"><span class="dotty"></span><span class="dotty"></span><span class="dotty"></span></span></div>''
        @ indent 6 @ str ''<div class="meta">'' @ typing_meta_sim @ str ''</div>''
        @ indent 4 @ str ''</div>''
        @ indent 2\<rparr>\<close>

subsection \<open>The state and its operations\<close>

text \<open>
  A pending timer of \<open>simulateBotReply\<close>: the typing element it will replace, the user's
  text and the delay.
\<close>

record reply_timer =
  typingEl :: nat
  userText :: jsstring
  waitMs :: nat

text \<open>
  The \<open>state\<close> object (\<open>preset\<close>, \<open>theme\<close>, \<open>messages\<close>), the parts of the page the code
  writes (the \<open>light\<close> class of the body, the theme switch and its label, the preset
  buttons with their \<open>data-preset\<close> and \<open>active\<close> class, the children of \<open>#messages\<close>),
  the pending timers and \<open>localStorage\<close>.
\<close>

record page_state =
  preset :: jsstring
  pageTheme :: jsstring
  messages :: "(role \<times> jsstring) list"
  bodyLight :: bool
  themeSwitchChecked :: bool
  themeLabel :: jsstring
  presetButtons :: "(jsstring \<times> bool) list"
  messagesEl :: "(nat \<times> html_el) list"
  nextEl :: nat
  replyTimers :: "reply_timer list"
  pageStorage :: kvstore

text \<open>\<open>try { localStorage.setItem(k, v); } catch {}\<close>\<close>

definition trySetItem :: "kvstore \<Rightarrow> jsstring \<Rightarrow> jsstring \<Rightarrow> kvstore" where
  "trySetItem store k v = (case setItem store k v of Inl err \<Rightarrow> store | Inr store' \<Rightarrow> store')"

definition setTheme :: "jsstring \<Rightarrow> page_state \<Rightarrow> page_state" where
  "setTheme th st =
     (let isLight = (th = str ''light'');
          st1 = st\<lparr>bodyLight := isLight,
                   pageTheme := (if isLight then str ''light'' else str ''dark''),
                   themeSwitchChecked := isLight,
                   themeLabel := (if isLight then label_light else label_dark)\<rparr>
      in st1\<lparr>pageStorage := trySetItem (pageStorage st1) (str ''chat_theme'') (pageTheme st1)\<rparr>)"

definition setPreset :: "jsstring \<Rightarrow> page_state \<Rightarrow> page_state" where
  "setPreset p st =
     (let st1 = st\<lparr>preset := p,
                   presetButtons := map (\<lambda>(d, a). (d, d = p)) (presetButtons st)\<rparr>
      in st1\<lparr>pageStorage := trySetItem (pageStorage st1) (str ''chat_preset'') (preset st1)\<rparr>)"

definition resetChat :: "page_state \<Rightarrow> page_state" where
  "resetChat st = st\<lparr>messages := [], messagesEl := []\<rparr>"

text \<open>\<open>simulateBotReply(userText)\<close> up to its first \<open>await\<close>.\<close>

definition simulateBotReply :: "env \<Rightarrow> jsstring \<Rightarrow> page_state \<Rightarrow> page_state" where
  "simulateBotReply e text st =
     (let typing = nextEl st;
          st1 = st\<lparr>messagesEl := messagesEl st @ [(typing, createTypingEl)],
                   nextEl := Suc (nextEl st)\<rparr>;
          delay = floorRandomTimes e (1400 - 500 + 1) + 500
      in st1\<lparr>replyTimers := replyTimers st1 @
            [\<lparr>typingEl = typing, userText = text, waitMs = delay\<rparr>]\<rparr>)"

text \<open>
  Calling a member inherited from \<open>Object.prototype\<close> as a plain function on a string and
  converting the result with \<open>String\<close>: \<open>Object(text)\<close> wraps the text, \<open>toString\<close> sees
  an undefined receiver, \<open>isPrototypeOf\<close> answers \<open>false\<close> for a primitive; the other
  members need an object receiver, and \<open>__proto__\<close> is not callable.
\<close>

definition callInherited :: "jsstring \<Rightarrow> jsstring \<Rightarrow> js_error + jsstring" where
  "callInherited k text =
     (if k = str ''constructor'' then Inr text
      else if k = str ''toString'' then Inr (str ''[object Undefined]'')
      else if k = str ''isPrototypeOf'' then Inr (str ''false'')
      else Inl TypeError)"

text \<open>
  \<open>const behavior = PRESET_BEHAVIORS[state.preset] || PRESET_BEHAVIORS.friendly;
  const reply = behavior(userText);\<close>
\<close>

definition presetReply :: "jsstring \<Rightarrow> jsstring \<Rightarrow> js_error + jsstring" where
  "presetReply p text =
     (case getProperty PRESET_BEHAVIORS p of
        Own behavior \<Rightarrow> Inr (behavior text)
      | Inherited k \<Rightarrow> callInherited k text
      | Undefined \<Rightarrow>
          (case getProperty PRESET_BEHAVIORS (str ''friendly'') of
             Own behavior \<Rightarrow> Inr (behavior text)
           | Inherited k \<Rightarrow> callInherited k text
           | Undefined \<Rightarrow> Inl TypeError))"

text \<open>
  The timer of a \<open>simulateBotReply\<close> fires: the reply is computed from the preset selected
  now and replaces the typing element where it stands; \<open>replaceWith\<close> does nothing for an
  element that is no longer in the page.
\<close>

definition replyTimerFires :: "env \<Rightarrow> nat \<Rightarrow> page_state \<Rightarrow> js_error option \<times> page_state" where
  "replyTimerFires e n st =
     (case find (\<lambda>t. typingEl t = n) (replyTimers st) of
        None \<Rightarrow> (None, st)
      | Some t \<Rightarrow>
          let st1 = st\<lparr>replyTimers := filter (\<lambda>t. typingEl t \<noteq> n) (replyTimers st)\<rparr>
          in case presetReply (preset st1) (userText t) of
               Inl err \<Rightarrow> (Some err, st1)
             | Inr reply \<Rightarrow>
                 (None,
                  st1\<lparr>messagesEl :=
                         map (\<lambda>(i, x). if i = n
                                then (nextEl st1, createMessageEl Bot reply (timeStr e))
                                else (i, x)) (messagesEl st1),
                       nextEl := Suc (nextEl st1)\<rparr>))"

text \<open>The submit handler of \<open>#composer\<close>; \<open>v\<close> is the value of the input.\<close>

definition composerSubmit :: "env \<Rightarrow> jsstring \<Rightarrow> page_state \<Rightarrow> page_state" where
  "composerSubmit e v st =
     (let text = trim v
      in if text = [] then st
         else
           let st1 = st\<lparr>messagesEl := messagesEl st @
                          [(nextEl st, createMessageEl User text (timeStr e))],
                        nextEl := Suc (nextEl st)\<rparr>
           in simulateBotReply e text st1)"

datatype page_event =
    ComposerSubmit jsstring
  | NewChatClick
  | PresetClick jsstring
  | ThemeSwitchChange bool
  | ReplyTimerFires nat

fun pageDispatch :: "page_state \<Rightarrow> env \<times> page_event \<Rightarrow> page_state" where
  "pageDispatch st (e, ComposerSubmit v) = composerSubmit e v st"
| "pageDispatch st (e, NewChatClick) = resetChat st"
| "pageDispatch st (e, PresetClick p) = setPreset p st"
| "pageDispatch st (e, ThemeSwitchChange checked) =
     setTheme (if checked then str ''light'' else str ''dark'') st"
| "pageDispatch st (e, ReplyTimerFires n) = snd (replyTimerFires e n st)"

text \<open>
  \<open>boot\<close>: both reads sit in one \<open>try\<close> block, so a read that throws leaves the later
  default in place as well.
\<close>

definition savedSettings :: "kvstore \<Rightarrow> jsstring \<times> jsstring" where
  "savedSettings store =
     (case getItem store (str ''chat_theme'') of
        Inl err \<Rightarrow> (str ''dark'', str ''friendly'')
      | Inr t \<Rightarrow>
          (case getItem store (str ''chat_preset'') of
             Inl err \<Rightarrow> (orDefault t (str ''dark''), str ''friendly'')
           | Inr p \<Rightarrow> (orDefault t (str ''dark''), orDefault p (str ''friendly''))))"

definition boot :: "env \<Rightarrow> page_state \<Rightarrow> page_state" where
  "boot e st =
     (let (savedTheme, savedPreset) = savedSettings (pageStorage st);
          st1 = setPreset savedPreset (setTheme savedTheme st)
      in st1\<lparr>messagesEl := messagesEl st1 @
               [(nextEl st1, createMessageEl Bot welcome_sim (timeStr e))],
             nextEl := Suc (nextEl st1)\<rparr>)"

text \<open>
  The page before \<open>boot\<close>: the \<open>state\<close> literal, the preset buttons of the document
  (their \<open>data-preset\<close> values are given), an empty message list.
\<close>

definition initialPage :: "jsstring list \<Rightarrow> kvstore \<Rightarrow> page_state" where
  "initialPage buttons store =
     \<lparr>preset = str ''friendly'', pageTheme = str ''dark'', messages = [],
      bodyLight = False, themeSwitchChecked = False, themeLabel = [],
      presetButtons = map (\<lambda>d. (d, False)) buttons,
      messagesEl = [], nextEl = 0, replyTimers = [], pageStorage = store\<rparr>"

definition pageRun :: "jsstring list \<Rightarrow> kvstore \<Rightarrow> env \<Rightarrow> (env \<times> page_event) list \<Rightarrow> page_state" where
  "pageRun buttons store e0 evs = foldl pageDispatch (boot e0 (initialPage buttons store)) evs"

section \<open>Notions used to state the properties\<close>

text \<open>
  The escaping in the words of the specification, one code unit at a time: \<open>&\<close> becomes
  \<open>&amp;\<close>, \<open><\<close> becomes \<open>&lt;\<close>, \<open>>\<close> becomes \<open>&gt;\<close>, anything else stays. It is
  compared with \<open>escapeHtml\<close>, the three passes of the source.
\<close>

definition escapeUnitSpec :: "16 word \<Rightarrow> jsstring" where
  "escapeUnitSpec c =
     (if c = 0x0026 then str ''&amp;''
      else if c = 0x003C then str ''&lt;''
      else if c = 0x003E then str ''&gt;''
      else [c])"

text \<open>Every \<open>&\<close> of a string starts one of the three entities.\<close>

fun ampersandsEscaped :: "jsstring \<Rightarrow> bool" where
  "ampersandsEscaped [] = True"
| "ampersandsEscaped (c # cs) =
     ((c = 0x0026 \<longrightarrow>
         startsWith cs (str ''amp;'') \<or> startsWith cs (str ''lt;'') \<or> startsWith cs (str ''gt;''))
      \<and> ampersandsEscaped cs)"

text \<open>The typing rows shown in \<open>#chat\<close>, and the messages shown there, in order.\<close>

definition typingRows :: "app_state \<Rightarrow> (nat \<times> dom) list" where
  "typingRows st = filter (\<lambda>x. isTypingRow (snd x)) (chat st)"

definition chatMessages :: "app_state \<Rightarrow> (role \<times> jsstring) list" where
  "chatMessages st = List.map_filter (\<lambda>x. rowMessage (snd x)) (chat st)"






text \<open>The typing elements shown in \<open>#messages\<close> of the second demo.\<close>

definition typingEls :: "page_state \<Rightarrow> (nat \<times> html_el) list" where
  "typingEls st = filter (\<lambda>x. snd x = createTypingEl) (messagesEl st)"

subsection \<open>Concrete inputs\<close>

text \<open>
  \<open>toLowerCase\<close> on strings whose only cased letters are ASCII (Thai has no case), a clock
  reading, and three stores: an empty one that works, one that refuses every access, and
  one that can be read but not written.
\<close>

definition toLowerAscii :: "jsstring \<Rightarrow> jsstring" where
  "toLowerAscii s = map (\<lambda>c. if 0x0041 \<le> c \<and> c \<le> 0x005A then c + 0x0020 else c) s"

definition env0 :: env where
  "env0 = \<lparr>nowMs = 0, timeStr = str ''09:00'', random53 = 0\<rparr>"

definition emptyStore :: kvstore where
  "emptyStore = \<lparr>items = Map.empty, getThrows = (\<lambda>k. False), setThrows = (\<lambda>k. False)\<rparr>"

definition brokenStore :: kvstore where
  "brokenStore = \<lparr>items = Map.empty, getThrows = (\<lambda>k. True), setThrows = (\<lambda>k. True)\<rparr>"

definition readOnlyStore :: kvstore where
  "readOnlyStore = \<lparr>items = Map.empty, getThrows = (\<lambda>k. False), setThrows = (\<lambda>k. True)\<rparr>"

text \<open>The chat simulator after \<open>init\<close>, and after the user has then sent \<open>hi\<close>.\<close>

definition idleApp :: app_state where
  "idleApp =
     \<lparr>theme = str ''dark'', history = [], isBotTyping = False, rootLight = False,
      chat = [(0, messageEl Bot greeting_app (str ''09:00''))], nextNode = 1, timers = [],
      localStorage = emptyStore\<lparr>items := [str ''theme'' \<mapsto> str ''dark'']\<rparr>\<rparr>"

definition busyApp :: app_state where
  "busyApp =
     idleApp\<lparr>history := [(User, str ''hi'', 0)], isBotTyping := True,
       chat := [(0, messageEl Bot greeting_app (str ''09:00'')),
                (1, messageEl User (str ''hi'') (str ''09:00'')),
                (2, typingRowEl (str ''09:00''))],
       nextNode := 3,
       timers := [\<lparr>typingNode = 2, replyText = fb0, delayMs = 1520, awaiting = []\<rparr>]\<rparr>"

text \<open>The chat simulator after \<open>init\<close>, once the store has stopped accepting writes.\<close>

definition fullApp :: app_state where
  "fullApp = idleApp\<lparr>localStorage := (localStorage idleApp)\<lparr>setThrows := (\<lambda>k. True)\<rparr>\<rparr>"

text \<open>The second demo after \<open>boot\<close> with an empty store, and after the user has sent \<open>a\<close>.\<close>

definition bootedPage :: page_state where
  "bootedPage = pageRun [] emptyStore env0 []"

definition busyPage :: page_state where
  "busyPage = pageRun [] emptyStore env0 [(env0, ComposerSubmit (str ''a''))]"

text \<open>A message that names a price, asks for help and names a theme: the keywords
  \<open>kw_price\<close>, \<open>kw_help\<close> and \<open>kw_dark\<close> between spaces.\<close>

definition priceHelpDark :: jsstring where
  "priceHelpDark = 0x0020 # kw_price @ 0x0020 # kw_help @ 0x0020 # kw_dark @ [0x0020]"

text \<open>
  The state that the initialiser of \<open>app.js\<close> builds on a readable store without a saved
  theme, and a store in which \<open>chat_preset\<close> holds the word \<open>constructor\<close>.
\<close>

definition freshApp :: "kvstore \<Rightarrow> app_state" where
  "freshApp store =
     \<lparr>theme = str ''dark'', history = [], isBotTyping = False, rootLight = False,
      chat = [], nextNode = 0, timers = [], localStorage = store\<rparr>"

definition ctorStore :: kvstore where
  "ctorStore = emptyStore\<lparr>items := [str ''chat_preset'' \<mapsto> str ''constructor'']\<rparr>"

section \<open>The random draw\<close>

lemma bitLength_0 [simp]: "bitLength 0 = 0"
  by (simp add: bitLength.simps)

lemma bitLength_le: "q < 2 ^ b \<Longrightarrow> bitLength q \<le> b"
proof (induction b arbitrary: q)
  case 0
  then show ?case by simp
next
  case (Suc b)
  show ?case
  proof (cases "q = 0")
    case True
    then show ?thesis by simp
  next
    case False
    have "q div 2 < 2 ^ b" using Suc.prems by simp
    then have "bitLength (q div 2) \<le> b" by (rule Suc.IH)
    then show ?thesis using False by (subst bitLength.simps) simp
  qed
qed

lemma roundToDouble_upper: "2 * roundToDouble q \<le> 2 * q + 2 ^ (bitLength q - 53)"
proof -
  define d :: nat where "d = 2 ^ (bitLength q - 53)"
  have q: "q = q div d * d + q mod d" by simp
  show ?thesis
  proof (cases "2 * (q mod d) < d \<or> (2 * (q mod d) = d \<and> even (q div d))")
    case True
    then have "roundToDouble q = q div d * d" by (simp add: roundToDouble_def d_def Let_def)
    moreover have "q div d * d \<le> q" by simp
    ultimately have "2 * roundToDouble q \<le> 2 * q" by simp
    then show ?thesis by (rule trans_le_add1)
  next
    case False
    then have r: "roundToDouble q = q div d * d + d" by (simp add: roundToDouble_def d_def Let_def)
    define a where "a = q div d * d"
    define b where "b = q mod d"
    have "d \<le> 2 * b" using False by (auto simp add: b_def)
    moreover have "q = a + b" using q by (simp only: a_def b_def)
    moreover have "roundToDouble q = a + d" using r by (simp only: a_def)
    ultimately have "2 * roundToDouble q \<le> 2 * q + d" by arith
    then show ?thesis by (simp only: d_def)
  qed
qed

lemma roundToDouble_exact: "q < 2 ^ 53 \<Longrightarrow> roundToDouble q = q"
  using bitLength_le [of q 53] by (simp add: roundToDouble_def)

lemma floorRandomTimes_zero: "random53 e = 0 \<Longrightarrow> floorRandomTimes e n = 0"
  by (simp add: floorRandomTimes_def roundToDouble_def)

text \<open>
  The rounding can lift the product over a whole number: with \<open>m = 6004799503160661\<close>
  the exact product \<open>3 * m / 2^53\<close> is below 2 and the double product is 2.
\<close>

lemma floorRandomTimes_rounds_up:
  "floorRandomTimes \<lparr>nowMs = 0, timeStr = [], random53 = 6004799503160661\<rparr> 3 = 2
   \<and> (6004799503160661 * 3) div (2::nat) ^ 53 = 1"
  by (simp add: floorRandomTimes_def roundToDouble_def bitLength.simps Let_def)

text \<open>The index drawn for the fallback pool lies in the pool; the delay drawn in the second
  demo lies between 500 and 1400.\<close>

lemma floorRandomTimes_fallbacks: "floorRandomTimes e (length fallbacks) < length fallbacks"
proof -
  define q where "q = random53 e mod 2 ^ 53 * 3"
  have m: "random53 e mod 2 ^ 53 < (2::nat) ^ 53" by simp
  then have qb: "q + 3 \<le> 3 * 2 ^ 53" by (simp add: q_def)
  then have "q < 2 ^ 55" by simp
  then have "bitLength q - 53 \<le> 2" using bitLength_le [of q 55] by simp
  then have "(2::nat) ^ (bitLength q - 53) \<le> 2 ^ 2" by (rule power_increasing) simp
  then have "2 * roundToDouble q \<le> 2 * q + 4" using roundToDouble_upper [of q] by simp
  then have "roundToDouble q < 3 * 2 ^ 53" using qb by simp
  then have "roundToDouble q div 2 ^ 53 < 3" by (simp add: less_mult_imp_div_less)
  moreover have "length fallbacks = 3" by (simp add: fallbacks_def)
  ultimately show ?thesis by (simp only: floorRandomTimes_def q_def)
qed

lemma floorRandomTimes_delay: "floorRandomTimes e (1400 - 500 + 1) + 500 \<le> 1400"
proof -
  define q where "q = random53 e mod 2 ^ 53 * 901"
  have m: "random53 e mod 2 ^ 53 < (2::nat) ^ 53" by simp
  then have qb: "q + 901 \<le> 901 * 2 ^ 53" by (simp add: q_def)
  then have "q < 2 ^ 63" by simp
  then have "bitLength q - 53 \<le> 10" using bitLength_le [of q 63] by simp
  then have "(2::nat) ^ (bitLength q - 53) \<le> 2 ^ 10" by (rule power_increasing) simp
  then have "2 * roundToDouble q \<le> 2 * q + 1024" using roundToDouble_upper [of q] by simp
  then have "roundToDouble q < 901 * 2 ^ 53" using qb by simp
  then have "roundToDouble q div 2 ^ 53 < 901" by (simp add: less_mult_imp_div_less)
  then show ?thesis by (simp add: floorRandomTimes_def q_def)
qed

section \<open>Escaping of the message text\<close>

lemma replaceAll_unit:
  "replaceAll [p] rep s = concat (map (\<lambda>c. if c = p then rep else [c]) s)"
proof (induction s)
  case Nil
  show ?case by (subst replaceAll.simps) simp
next
  case (Cons c cs)
  show ?case by (subst replaceAll.simps) (simp add: Cons.IH)
qed

lemma escapeHtml_units: "escapeHtml s = concat (map escapeUnitSpec s)"
proof -
  have "escapeHtml s =
      concat (map (\<lambda>c. if c = 0x3E then str ''&gt;'' else [c])
        (concat (map (\<lambda>c. if c = 0x3C then str ''&lt;'' else [c])
          (concat (map (\<lambda>c. if c = 0x26 then str ''&amp;'' else [c]) s)))))"
    by (simp add: escapeHtml_def str_def replaceAll_unit cong: if_cong)
  also have "\<dots> = concat (map escapeUnitSpec s)"
    by (induction s) (simp_all add: escapeUnitSpec_def str_def)
  finally show ?thesis .
qed

lemma escapeUnitSpec_no_angle: "0x3C \<notin> set (escapeUnitSpec c) \<and> 0x3E \<notin> set (escapeUnitSpec c)"
  by (simp add: escapeUnitSpec_def str_def)

lemma no_angle_units:
  "0x3C \<notin> set (concat (map escapeUnitSpec s)) \<and> 0x3E \<notin> set (concat (map escapeUnitSpec s))"
  using escapeUnitSpec_no_angle by (induction s) auto

lemma ampersandsEscaped_escapeUnitSpec:
  "ampersandsEscaped r \<Longrightarrow> ampersandsEscaped (escapeUnitSpec c @ r)"
  by (simp add: escapeUnitSpec_def str_def)

lemma ampersandsEscaped_units: "ampersandsEscaped (concat (map escapeUnitSpec s))"
  by (induction s) (simp_all add: ampersandsEscaped_escapeUnitSpec)

lemma createMessageEl_around:
  "\<exists>pre post. \<forall>content. innerHTML (createMessageEl r content time) = pre @ escapeHtml content @ post"
proof -
  define pre where \<open>pre = indent 4 @ str ''<div class="avatar">''
      @ (if r = User then avatar_user_sim else avatar_bot) @ str ''</div>''
      @ indent 4 @ str ''<div>'' @ indent 6 @ str ''<div class="bubble">''\<close>
  define post where \<open>post = str ''</div>'' @ indent 6 @ str ''<div class="meta">''
      @ (if r = User then label_user else label_bot_sim) @ sep_sim @ time @ str ''</div>''
      @ indent 4 @ str ''</div>'' @ indent 2\<close>
  have "innerHTML (createMessageEl r content time) = pre @ escapeHtml content @ post" for content
    by (simp add: createMessageEl_def pre_def post_def)
  then show ?thesis by blast
qed

lemma messageEl_textNodes:
  "textNodes (messageEl r s time) =
     [if r = User then avatar_user_app else avatar_bot, s,
      (if r = User then label_user else label_bot_app) @ sep_app @ time]"
  by (simp add: messageEl_def el_def Let_def)

lemma messageEl_skeleton: "skeleton (messageEl r s time) = skeleton (messageEl r [] time)"
  by (simp add: messageEl_def el_def Let_def)

text \<open>
  C1. Rendering a message never puts a raw \<open>&\<close>, \<open><\<close> or \<open>>\<close> of its text into markup.
  In the second demo the text reaches \<open>innerHTML\<close> only through \<open>escapeHtml\<close>, which
  replaces each of the three characters by its entity (the three \<open>replaceAll\<close> passes, the
  ampersand first, amount to one replacement per code unit), so the escaped text holds no
  \<open><\<close> and no \<open>>\<close> and each of its \<open>&\<close> starts an entity. In \<open>app.js\<close> the text becomes
  the data of one text node: it is the second of the three text nodes of the row, and the
  elements of the row do not depend on it.
\<close>

theorem render_escapes_message_text:
  "escapeHtml s = concat (map escapeUnitSpec s)
   \<and> 0x003C \<notin> set (escapeHtml s) \<and> 0x003E \<notin> set (escapeHtml s)
   \<and> ampersandsEscaped (escapeHtml s)
   \<and> (\<exists>pre post. \<forall>content.
         innerHTML (createMessageEl r content time) = pre @ escapeHtml content @ post)
   \<and> chat (appendMessage e r s st) = chat st @ [(nextNode st, messageEl r s (timeStr e))]
   \<and> textNodes (messageEl r s time) =
         [if r = User then avatar_user_app else avatar_bot, s,
          (if r = User then label_user else label_bot_app) @ sep_app @ time]
   \<and> skeleton (messageEl r s time) = skeleton (messageEl r [] time)"
  using no_angle_units [of s] ampersandsEscaped_units [of s] createMessageEl_around [of r time]
  by (simp add: escapeHtml_units messageEl_textNodes messageEl_skeleton [of r s time]
      appendMessage_def)

theorem render_escapes_message_text_witness:
  "escapeHtml (str ''<b>&'') = str ''&lt;b&gt;&amp;''
   \<and> ampersandsEscaped (str ''&lt;b&gt;&amp;'')
   \<and> \<not> ampersandsEscaped (str ''<b>&'')"
  using render_escapes_message_text [of "str ''<b>&''" User "[]"]
  by (simp add: escapeUnitSpec_def str_def)

section \<open>The typing delay\<close>

text \<open>
  C3. The delay before a reply of length \<open>L\<close> appears is \<open>max(600, min(2000, 40 * L))\<close>
  milliseconds: the expression of the code, \<open>Math.min(2000, Math.max(600, L * 40))\<close>, has
  that value for every \<open>L\<close>, it lies between 600 and 2000, and it is the delay of the
  timer that \<open>botReply\<close> sets when it starts a reply.
\<close>

theorem botReply_delay_clamped:
  "botReplyDelay s = max 600 (min 2000 (40 * length s))
   \<and> 600 \<le> botReplyDelay s \<and> botReplyDelay s \<le> 2000
   \<and> (isBotTyping st
        \<or> map delayMs (timers (stateOf (botReply e s k st))) =
            map delayMs (timers st) @ [max 600 (min 2000 (40 * length s))])"
  by (auto simp add: botReplyDelay_def botReply_def appendTyping_def)

section \<open>Resetting the chat\<close>

text \<open>
  C9. Resetting the chat empties the message history and the displayed message list and
  changes nothing else: the stored theme and preset, the theme and the preset in memory
  and every other part of the state stay as they were. The button for a new chat does
  exactly this.
\<close>

theorem resetChat_frame:
  "messages (resetChat st) = [] \<and> messagesEl (resetChat st) = []
   \<and> pageStorage (resetChat st) = pageStorage st
   \<and> pageTheme (resetChat st) = pageTheme st \<and> preset (resetChat st) = preset st
   \<and> bodyLight (resetChat st) = bodyLight st
   \<and> themeSwitchChecked (resetChat st) = themeSwitchChecked st
   \<and> themeLabel (resetChat st) = themeLabel st
   \<and> presetButtons (resetChat st) = presetButtons st
   \<and> nextEl (resetChat st) = nextEl st \<and> replyTimers (resetChat st) = replyTimers st
   \<and> pageDispatch st (e, NewChatClick) = resetChat st"
  by (simp add: resetChat_def)

section \<open>Rows of the chat\<close>

lemma isTypingRow_messageEl [simp]: "\<not> isTypingRow (messageEl r s tm)"
  by (simp add: isTypingRow_def messageEl_def el_def Let_def)

lemma isTypingRow_typingRowEl [simp]: "isTypingRow (typingRowEl tm)"
  by (simp add: isTypingRow_def typingRowEl_def el_def)

lemma rowMessage_messageEl [simp]: "rowMessage (messageEl r s tm) = Some (r, s)"
  by (cases r) (simp_all add: rowMessage_def messageEl_def el_def Let_def)

lemma rowMessage_typingRowEl [simp]: "rowMessage (typingRowEl tm) = None"
  by (simp add: rowMessage_def typingRowEl_def el_def)

section \<open>The invariant of the chat simulator\<close>














section \<open>Scripted playback from a state in which no reply is being typed\<close>









section \<open>Concrete runs\<close>

lemma trim_hi: "trim (str ''hi'') = str ''hi''"
  by (simp add: trim_def str_def isWhiteSpace_def)





lemma createMessageEl_not_typing [simp]: "createMessageEl r c t \<noteq> createTypingEl"
proof
  assume "createMessageEl r c t = createTypingEl"
  then have "innerHTML (createMessageEl r c t) = innerHTML createTypingEl" by simp
  then have eq: \<open>escapeHtml c @ str ''</div>'' @ indent 6 @ str ''<div class="meta">''
      @ (if r = User then label_user else label_bot_sim) @ sep_sim @ t @ str ''</div>''
      @ indent 4 @ str ''</div>'' @ indent 2
    = str ''<span class="typing"><span class="dotty"></span><span class="dotty"></span><span class="dotty"></span></span></div>''
      @ indent 6 @ str ''<div class="meta">'' @ typing_meta_sim @ str ''</div>''
      @ indent 4 @ str ''</div>'' @ indent 2\<close>
    by (simp add: createMessageEl_def createTypingEl_def str_def indent_def
        avatar_user_sim_def avatar_bot_def split: if_splits)
  show False
  proof (cases "escapeHtml c")
    case Nil
    then show ?thesis using eq by (simp add: str_def)
  next
    case (Cons h rest)
    then have "h = 0x3C" using eq by (simp add: str_def)
    moreover have "0x3C \<notin> set (escapeHtml c)"
      using no_angle_units [of c] by (simp add: escapeHtml_units)
    ultimately show ?thesis using Cons by simp
  qed
qed

section \<open>One typing indicator at a time\<close>







section \<open>Scripted playback\<close>






section \<open>What a handler leaves untouched\<close>

lemma botReply_fields:
  "chat (stateOf (botReply e s k st)) =
     (if isBotTyping st then chat st else chat st @ [(nextNode st, typingRowEl (timeStr e))])"
  "timers (stateOf (botReply e s k st)) =
     (if isBotTyping st then timers st
      else timers st @ [\<lparr>typingNode = nextNode st, replyText = s, delayMs = botReplyDelay s,
                          awaiting = k\<rparr>])"
  "history (stateOf (botReply e s k st)) = history st"
  "theme (stateOf (botReply e s k st)) = theme st"
  "rootLight (stateOf (botReply e s k st)) = rootLight st"
  "localStorage (stateOf (botReply e s k st)) = localStorage st"
  by (simp_all add: botReply_def appendTyping_def)


lemma appendMessage_fields:
  "chat (appendMessage e r s st) = chat st @ [(nextNode st, messageEl r s (timeStr e))]"
  "nextNode (appendMessage e r s st) = Suc (nextNode st)"
  "timers (appendMessage e r s st) = timers st"
  "history (appendMessage e r s st) = history st"
  "isBotTyping (appendMessage e r s st) = isBotTyping st"
  "theme (appendMessage e r s st) = theme st"
  "rootLight (appendMessage e r s st) = rootLight st"
  "localStorage (appendMessage e r s st) = localStorage st"
  by (simp_all add: appendMessage_def)



section \<open>Sending a message\<close>

lemma handleUserSend_empty: "trim raw = [] \<Longrightarrow> handleUserSend lc e raw st = (None, st)"
  by (simp add: handleUserSend_def)

lemma composerSubmit_empty: "trim raw = [] \<Longrightarrow> composerSubmit e raw pst = pst"
  by (simp add: composerSubmit_def)

lemma handleUserSend_history:
  "trim raw \<noteq> [] \<Longrightarrow>
   history (snd (handleUserSend lc e raw st)) = history st @ [(User, trim raw, nowMs e)]"
  by (cases "toggleTheme ((appendMessage e User (trim raw) st)
        \<lparr>history := history (appendMessage e User (trim raw) st) @ [(User, trim raw, nowMs e)]\<rparr>)")
     (auto simp add: handleUserSend_def Let_def botReply_fields appendMessage_fields
        toggleTheme_def applyTheme_def split: option.splits sum.splits)

lemma handleUserSend_while_typing:
  "trim raw \<noteq> [] \<Longrightarrow> isBotTyping st \<Longrightarrow>
   timers (snd (handleUserSend lc e raw st)) = timers st
   \<and> chat (snd (handleUserSend lc e raw st)) =
       chat st @ [(nextNode st, messageEl User (trim raw) (timeStr e))]"
  by (cases "toggleTheme ((appendMessage e User (trim raw) st)
        \<lparr>history := history (appendMessage e User (trim raw) st) @ [(User, trim raw, nowMs e)]\<rparr>)")
     (auto simp add: handleUserSend_def Let_def botReply_fields appendMessage_fields
        toggleTheme_def applyTheme_def split: option.splits sum.splits)

lemma handleUserSend_while_idle:
  "trim raw \<noteq> [] \<Longrightarrow> \<not> isBotTyping st \<Longrightarrow> fst (handleUserSend lc e raw st) = None \<Longrightarrow>
   length (timers (snd (handleUserSend lc e raw st))) = Suc (length (timers st))
   \<and> chat (snd (handleUserSend lc e raw st)) =
       chat st @ [(nextNode st, messageEl User (trim raw) (timeStr e)),
                  (Suc (nextNode st), typingRowEl (timeStr e))]"
  by (cases "toggleTheme ((appendMessage e User (trim raw) st)
        \<lparr>history := history (appendMessage e User (trim raw) st) @ [(User, trim raw, nowMs e)]\<rparr>)")
     (auto simp add: handleUserSend_def Let_def botReply_fields appendMessage_fields
        toggleTheme_def applyTheme_def split: option.splits sum.splits if_splits)

lemma handleUserSend_result:
  "fst (handleUserSend lc e raw st) =
     (if trim raw \<noteq> []
         \<and> \<not> (includesStr (lc (trim raw)) kw_price \<or> includesStr (lc (trim raw)) kw_howmuch)
         \<and> \<not> (includesStr (lc (trim raw)) kw_help \<or> includesStr (lc (trim raw)) kw_how)
         \<and> (includesStr (lc (trim raw)) kw_dark \<or> includesStr (lc (trim raw)) kw_light)
         \<and> setThrows (localStorage st) (str ''theme'')
      then Some StorageError else None)"
  by (cases "toggleTheme ((appendMessage e User (trim raw) st)
        \<lparr>history := history (appendMessage e User (trim raw) st) @ [(User, trim raw, nowMs e)]\<rparr>)")
     (auto simp add: handleUserSend_def Let_def appendMessage_fields
        toggleTheme_def applyTheme_def setItem_def split: option.splits sum.splits if_splits)

lemma handleUserSend_failed:
  "trim raw \<noteq> [] \<Longrightarrow> fst (handleUserSend lc e raw st) \<noteq> None \<Longrightarrow>
   timers (snd (handleUserSend lc e raw st)) = timers st
   \<and> chat (snd (handleUserSend lc e raw st)) =
       chat st @ [(nextNode st, messageEl User (trim raw) (timeStr e))]"
  by (cases "toggleTheme ((appendMessage e User (trim raw) st)
        \<lparr>history := history (appendMessage e User (trim raw) st) @ [(User, trim raw, nowMs e)]\<rparr>)")
     (auto simp add: handleUserSend_def Let_def botReply_fields appendMessage_fields
        toggleTheme_def applyTheme_def split: option.splits sum.splits if_splits)

lemma handleUserSend_chatMessages:
  assumes "trim raw \<noteq> []"
  shows "chatMessages (snd (handleUserSend lc e raw st)) = chatMessages st @ [(User, trim raw)]"
proof -
  let ?st' = "snd (handleUserSend lc e raw st)"
  let ?row = "(nextNode st, messageEl User (trim raw) (timeStr e))"
  have "chat ?st' = chat st @ [?row]
      \<or> chat ?st' = chat st @ [?row, (Suc (nextNode st), typingRowEl (timeStr e))]"
    using handleUserSend_while_typing [OF assms, of st lc e]
      handleUserSend_while_idle [OF assms, of st lc e]
      handleUserSend_failed [OF assms, of lc e st]
    by blast
  then show ?thesis by (auto simp add: chatMessages_def map_filter_def)
qed

lemma composerSubmit_nonempty:
  "trim raw \<noteq> [] \<Longrightarrow>
   messagesEl (composerSubmit e raw pst) =
     messagesEl pst @ [(nextEl pst, createMessageEl User (trim raw) (timeStr e)),
                       (Suc (nextEl pst), createTypingEl)]
   \<and> length (replyTimers (composerSubmit e raw pst)) = Suc (length (replyTimers pst))
   \<and> messages (composerSubmit e raw pst) = messages pst
   \<and> pageTheme (composerSubmit e raw pst) = pageTheme pst
   \<and> preset (composerSubmit e raw pst) = preset pst"
  by (simp add: composerSubmit_def simulateBotReply_def Let_def)

text \<open>
  C5, as the code has it. A send whose trimmed text is empty is ignored in both demos:
  the state stays as it is. A send with text shows exactly one new message, the user's,
  at once. In \<open>app.js\<close> it also records the message in the history. The handler fails
  exactly when the text reaches the theme branch and the write of the theme throws; then
  no reply cycle starts. While a reply is being typed no reply cycle starts either (no
  timer, no typing row). Otherwise exactly one starts. In the second demo a send with
  text starts exactly one reply cycle whatever is pending: there is no guard.
\<close>

theorem user_send_effects:
  "(trim raw = [] \<longrightarrow>
      handleUserSend lc e raw st = (None, st) \<and> composerSubmit e raw pst = pst)
   \<and> (trim raw \<noteq> [] \<longrightarrow>
        history (snd (handleUserSend lc e raw st)) = history st @ [(User, trim raw, nowMs e)]
      \<and> (isBotTyping st \<longrightarrow>
            timers (snd (handleUserSend lc e raw st)) = timers st
          \<and> chat (snd (handleUserSend lc e raw st)) =
              chat st @ [(nextNode st, messageEl User (trim raw) (timeStr e))])
      \<and> (\<not> isBotTyping st \<and> fst (handleUserSend lc e raw st) = None \<longrightarrow>
            length (timers (snd (handleUserSend lc e raw st))) = Suc (length (timers st))
          \<and> chat (snd (handleUserSend lc e raw st)) =
              chat st @ [(nextNode st, messageEl User (trim raw) (timeStr e)),
                         (Suc (nextNode st), typingRowEl (timeStr e))])
      \<and> messagesEl (composerSubmit e raw pst) =
           messagesEl pst @ [(nextEl pst, createMessageEl User (trim raw) (timeStr e)),
                             (Suc (nextEl pst), createTypingEl)]
      \<and> length (replyTimers (composerSubmit e raw pst)) = Suc (length (replyTimers pst))
      \<and> messages (composerSubmit e raw pst) = messages pst
      \<and> chatMessages (snd (handleUserSend lc e raw st)) = chatMessages st @ [(User, trim raw)]
      \<and> (fst (handleUserSend lc e raw st) \<noteq> None \<longrightarrow>
            timers (snd (handleUserSend lc e raw st)) = timers st
          \<and> chat (snd (handleUserSend lc e raw st)) =
              chat st @ [(nextNode st, messageEl User (trim raw) (timeStr e))]))
   \<and> fst (handleUserSend lc e raw st) =
       (if trim raw \<noteq> []
           \<and> \<not> (includesStr (lc (trim raw)) kw_price \<or> includesStr (lc (trim raw)) kw_howmuch)
           \<and> \<not> (includesStr (lc (trim raw)) kw_help \<or> includesStr (lc (trim raw)) kw_how)
           \<and> (includesStr (lc (trim raw)) kw_dark \<or> includesStr (lc (trim raw)) kw_light)
           \<and> setThrows (localStorage st) (str ''theme'')
        then Some StorageError else None)"
  using handleUserSend_empty [of raw lc e st] composerSubmit_empty [of raw e pst]
    handleUserSend_history [of raw lc e st] handleUserSend_while_typing [of raw st lc e]
    handleUserSend_while_idle [of raw st lc e] composerSubmit_nonempty [of raw e pst]
    handleUserSend_chatMessages [of raw lc e st] handleUserSend_failed [of raw lc e st]
    handleUserSend_result [of lc e raw st]
  by blast

lemma trim_spaces: "trim (str ''  '') = []"
  by (simp add: trim_def str_def isWhiteSpace_def)

lemma busyPage_eval:
  "replyTimers busyPage = [\<lparr>typingEl = 2, userText = str ''a'', waitMs = 500\<rparr>]
   \<and> length (typingEls busyPage) = 1"
  by (simp add: busyPage_def pageRun_def boot_def initialPage_def savedSettings_def getItem_def
      emptyStore_def orDefault_def setTheme_def setPreset_def trySetItem_def setItem_def
      composerSubmit_def simulateBotReply_def typingEls_def Let_def trim_def isWhiteSpace_def
      floorRandomTimes_zero env0_def str_def)

lemma fullApp_send_dark:
  "trim kw_dark = kw_dark \<and> kw_dark \<noteq> []
   \<and> fst (handleUserSend toLowerAscii env0 kw_dark fullApp) = Some StorageError
   \<and> \<not> isBotTyping fullApp \<and> timers fullApp = []
   \<and> chatMessages fullApp = [(Bot, greeting_app)]"
proof -
  have t: "trim kw_dark = kw_dark" "kw_dark \<noteq> []"
    by (simp_all add: trim_def isWhiteSpace_def kw_dark_def)
  have l: "toLowerAscii kw_dark = kw_dark" by (simp add: toLowerAscii_def kw_dark_def)
  have "fst (handleUserSend toLowerAscii env0 kw_dark fullApp) = Some StorageError"
    by (simp only: handleUserSend_result t l)
       (simp add: kw_dark_def kw_price_def kw_howmuch_def kw_help_def kw_how_def
          fullApp_def idleApp_def)
  moreover have "\<not> isBotTyping fullApp" "timers fullApp = []"
    by (simp_all add: fullApp_def idleApp_def)
  moreover have "chatMessages fullApp = [(Bot, greeting_app)]"
    by (simp add: chatMessages_def fullApp_def idleApp_def map_filter_def)
  ultimately show ?thesis using t by simp
qed

theorem user_send_effects_witness:
  "trim (str ''  '') = []
   \<and> handleUserSend toLowerAscii env0 (str ''  '') idleApp = (None, idleApp)
   \<and> trim (str ''hi'') \<noteq> []
   \<and> \<not> isBotTyping idleApp
   \<and> fst (handleUserSend toLowerAscii env0 (str ''hi'') idleApp) = None
   \<and> length (timers (snd (handleUserSend toLowerAscii env0 (str ''hi'') idleApp))) = 1
   \<and> isBotTyping busyApp
   \<and> timers (snd (handleUserSend toLowerAscii env0 (str ''hi'') busyApp)) = timers busyApp
   \<and> history (snd (handleUserSend toLowerAscii env0 (str ''hi'') busyApp))
       = [(User, str ''hi'', 0), (User, str ''hi'', 0)]
   \<and> fst (handleUserSend toLowerAscii env0 kw_dark fullApp) \<noteq> None
   \<and> timers (snd (handleUserSend toLowerAscii env0 kw_dark fullApp)) = []
   \<and> chatMessages (snd (handleUserSend toLowerAscii env0 kw_dark fullApp))
       = [(Bot, greeting_app), (User, kw_dark)]"
proof -
  have none: "fst (handleUserSend toLowerAscii env0 (str ''hi'') idleApp) = None"
    by (simp add: handleUserSend_def trim_hi Let_def)
       (simp add: toggleTheme_def applyTheme_def setItem_def idleApp_def emptyStore_def
          appendMessage_def Let_def)
  have idle: "\<not> isBotTyping idleApp" "timers idleApp = []" by (simp_all add: idleApp_def)
  have busy: "isBotTyping busyApp" "history busyApp = [(User, str ''hi'', 0)]"
    by (simp_all add: busyApp_def)
  have now: "nowMs env0 = 0" by (simp add: env0_def)
  have hi: "str ''hi'' \<noteq> []" by (simp add: str_def)
  note full = user_send_effects [of kw_dark toLowerAscii env0 fullApp bootedPage,
      THEN conjunct2, THEN conjunct1]
  have failed: "fst (handleUserSend toLowerAscii env0 kw_dark fullApp) \<noteq> None"
    using fullApp_send_dark by simp
  have f1: "timers (snd (handleUserSend toLowerAscii env0 kw_dark fullApp)) = []"
    using full failed fullApp_send_dark by simp
  have f2: "chatMessages (snd (handleUserSend toLowerAscii env0 kw_dark fullApp))
      = [(Bot, greeting_app), (User, kw_dark)]"
    using full fullApp_send_dark by simp
  have rest: "trim (str ''  '') = []
   \<and> handleUserSend toLowerAscii env0 (str ''  '') idleApp = (None, idleApp)
   \<and> trim (str ''hi'') \<noteq> []
   \<and> \<not> isBotTyping idleApp
   \<and> fst (handleUserSend toLowerAscii env0 (str ''hi'') idleApp) = None
   \<and> length (timers (snd (handleUserSend toLowerAscii env0 (str ''hi'') idleApp))) = 1
   \<and> isBotTyping busyApp
   \<and> timers (snd (handleUserSend toLowerAscii env0 (str ''hi'') busyApp)) = timers busyApp
   \<and> history (snd (handleUserSend toLowerAscii env0 (str ''hi'') busyApp))
       = [(User, str ''hi'', 0), (User, str ''hi'', 0)]"
    using user_send_effects [of "str ''  ''" toLowerAscii env0 idleApp bootedPage]
      user_send_effects [of "str ''hi''" toLowerAscii env0 idleApp bootedPage]
      user_send_effects [of "str ''hi''" toLowerAscii env0 busyApp bootedPage]
      none idle busy now hi
    by (simp add: trim_spaces trim_hi)
  show ?thesis using rest failed f1 f2 by simp
qed

text \<open>
  Two sends that break the rule of one reply cycle unless one is in progress. The second demo while the reply to \<open>a\<close> is
  pending and its typing element is shown: sending \<open>b\<close> starts a second reply cycle.
  \<open>app.js\<close> with no reply being typed and a store that has stopped accepting writes:
  sending the theme keyword \<open>kw_dark\<close> shows the user message, the handler fails with the
  storage error and no reply cycle starts.
\<close>

theorem sends_break_one_cycle_rule:
  "length (replyTimers busyPage) = 1 \<and> length (typingEls busyPage) = 1
   \<and> length (replyTimers (composerSubmit env0 (str ''b'') busyPage)) = 2
   \<and> trim kw_dark = kw_dark \<and> kw_dark \<noteq> []
   \<and> \<not> isBotTyping fullApp \<and> timers fullApp = []
   \<and> fst (handleUserSend toLowerAscii env0 kw_dark fullApp) = Some StorageError
   \<and> timers (snd (handleUserSend toLowerAscii env0 kw_dark fullApp)) = []
   \<and> typingRows (snd (handleUserSend toLowerAscii env0 kw_dark fullApp)) = []
   \<and> chatMessages (snd (handleUserSend toLowerAscii env0 kw_dark fullApp))
       = [(Bot, greeting_app), (User, kw_dark)]"
proof -
  have "trim (str ''b'') \<noteq> []" by (simp add: trim_def str_def isWhiteSpace_def)
  then have "length (replyTimers (composerSubmit env0 (str ''b'') busyPage))
      = Suc (length (replyTimers busyPage))"
    using composerSubmit_nonempty [of "str ''b''" env0 busyPage] by simp
  moreover have "length (replyTimers busyPage) = 1" using busyPage_eval by simp
  moreover have "length (typingEls busyPage) = 1" using busyPage_eval by simp
  ultimately have demo: "length (replyTimers busyPage) = 1 \<and> length (typingEls busyPage) = 1
      \<and> length (replyTimers (composerSubmit env0 (str ''b'') busyPage)) = 2"
    by simp
  have ne: "trim kw_dark \<noteq> []" using fullApp_send_dark by simp
  have failed: "fst (handleUserSend toLowerAscii env0 kw_dark fullApp) \<noteq> None"
    using fullApp_send_dark by simp
  note f = handleUserSend_failed [OF ne failed]
  have t: "timers (snd (handleUserSend toLowerAscii env0 kw_dark fullApp)) = []"
    using f fullApp_send_dark by simp
  have r: "typingRows (snd (handleUserSend toLowerAscii env0 kw_dark fullApp)) = []"
    using f fullApp_send_dark
    by (simp add: typingRows_def fullApp_def idleApp_def)
  have m: "chatMessages (snd (handleUserSend toLowerAscii env0 kw_dark fullApp))
      = [(Bot, greeting_app), (User, kw_dark)]"
    using handleUserSend_chatMessages [OF ne, of toLowerAscii env0 fullApp] fullApp_send_dark
    by simp
  show ?thesis using demo fullApp_send_dark t r m by simp
qed

section \<open>Keyword dispatch\<close>

text \<open>
  C6. When the lower-cased text contains a pricing keyword (\<open>kw_price\<close> or
  \<open>kw_howmuch\<close>), \<open>handleUserSend\<close> hands the
  fixed pricing reply to \<open>botReply\<close>, whatever else the text contains and whatever the
  random draw is: the handler is the user message, the history entry and
  \<open>botReply(pricing)\<close>, the theme is not toggled, and when no reply is being typed the timer
  that is set carries the pricing reply. (\<open>toLowerCase\<close> maps the empty string to itself.)
\<close>

theorem pricing_keyword_wins:
  assumes "lc [] = []"
    and "includesStr (lc (trim raw)) kw_price \<or> includesStr (lc (trim raw)) kw_howmuch"
  shows "handleUserSend lc e raw st =
      (None, stateOf (botReply e reply_pricing []
         ((appendMessage e User (trim raw) st)
            \<lparr>history := history st @ [(User, trim raw, nowMs e)]\<rparr>)))
    \<and> theme (snd (handleUserSend lc e raw st)) = theme st
    \<and> rootLight (snd (handleUserSend lc e raw st)) = rootLight st
    \<and> localStorage (snd (handleUserSend lc e raw st)) = localStorage st
    \<and> (isBotTyping st
        \<or> map replyText (timers (snd (handleUserSend lc e raw st))) =
            map replyText (timers st) @ [reply_pricing])"
proof -
  have "trim raw \<noteq> []"
  proof
    assume "trim raw = []"
    then have "includesStr [] kw_price \<or> includesStr [] kw_howmuch"
      using assms by simp
    then show False by (simp add: kw_price_def kw_howmuch_def)
  qed
  then have eq: "handleUserSend lc e raw st =
      (None, stateOf (botReply e reply_pricing []
         ((appendMessage e User (trim raw) st)
            \<lparr>history := history st @ [(User, trim raw, nowMs e)]\<rparr>)))"
    using assms(2) by (simp add: handleUserSend_def Let_def appendMessage_fields)
  show ?thesis
    by (simp only: eq) (simp add: botReply_fields appendMessage_fields)
qed

theorem pricing_keyword_wins_witness:
  "toLowerAscii [] = []
   \<and> includesStr (toLowerAscii (trim priceHelpDark)) kw_price
   \<and> includesStr (toLowerAscii (trim priceHelpDark)) kw_help
   \<and> includesStr (toLowerAscii (trim priceHelpDark)) kw_dark
   \<and> map replyText (timers (snd (handleUserSend toLowerAscii env0 priceHelpDark idleApp)))
       = [reply_pricing]
   \<and> theme (snd (handleUserSend toLowerAscii env0 priceHelpDark idleApp)) = str ''dark''"
proof -
  have h1: "toLowerAscii [] = []" by (simp add: toLowerAscii_def)
  have t: "toLowerAscii (trim priceHelpDark) = kw_price @ 0x0020 # kw_help @ 0x0020 # kw_dark"
    by (simp add: priceHelpDark_def trim_def isWhiteSpace_def toLowerAscii_def
        kw_price_def kw_help_def kw_dark_def)
  have h2: "includesStr (toLowerAscii (trim priceHelpDark)) kw_price"
    by (simp only: t) (simp add: kw_price_def kw_help_def kw_dark_def)
  have h3: "includesStr (toLowerAscii (trim priceHelpDark)) kw_help"
    by (simp only: t) (simp add: kw_price_def kw_help_def kw_dark_def)
  have h4: "includesStr (toLowerAscii (trim priceHelpDark)) kw_dark"
    by (simp only: t) (simp add: kw_price_def kw_help_def kw_dark_def)
  have idle: "\<not> isBotTyping idleApp" "timers idleApp = []" "theme idleApp = str ''dark''"
    by (simp_all add: idleApp_def)
  note wins = pricing_keyword_wins [OF h1 disjI1 [OF h2], of env0 idleApp]
  have th: "theme (snd (handleUserSend toLowerAscii env0 priceHelpDark idleApp)) = str ''dark''"
    using wins [THEN conjunct2, THEN conjunct1] idle by simp
  have tm: "map replyText (timers (snd (handleUserSend toLowerAscii env0 priceHelpDark idleApp)))
      = [reply_pricing]"
    using wins [THEN conjunct2, THEN conjunct2, THEN conjunct2, THEN conjunct2] idle by simp
  show ?thesis using h1 h2 h3 h4 th tm by simp
qed

section \<open>Storage failures\<close>

lemma savedSettings_theme_default:
  "getThrows store (str ''chat_theme'') \<or> items store (str ''chat_theme'') = None \<Longrightarrow>
   fst (savedSettings store) = str ''dark''"
  by (auto simp add: savedSettings_def getItem_def orDefault_def split: sum.splits)

lemma savedSettings_preset_default:
  "getThrows store (str ''chat_theme'') \<or> getThrows store (str ''chat_preset'')
     \<or> items store (str ''chat_preset'') = None \<Longrightarrow>
   snd (savedSettings store) = str ''friendly''"
  by (auto simp add: savedSettings_def getItem_def orDefault_def split: sum.splits)

lemma boot_fields:
  "pageTheme (boot e st) =
     (if fst (savedSettings (pageStorage st)) = str ''light'' then str ''light'' else str ''dark'')"
  "preset (boot e st) = snd (savedSettings (pageStorage st))"
  "messages (boot e st) = messages st"
  by (simp_all add: boot_def setTheme_def setPreset_def Let_def split: prod.splits)

lemma setTheme_fields:
  "pageTheme (setTheme th pst) = (if th = str ''light'' then str ''light'' else str ''dark'')"
  "messages (setTheme th pst) = messages pst"
  "setThrows (pageStorage pst) (str ''chat_theme'') \<Longrightarrow>
     pageStorage (setTheme th pst) = pageStorage pst"
  by (simp_all add: setTheme_def trySetItem_def setItem_def Let_def)

lemma setPreset_fields:
  "preset (setPreset p pst) = p"
  "messages (setPreset p pst) = messages pst"
  "setThrows (pageStorage pst) (str ''chat_preset'') \<Longrightarrow>
     pageStorage (setPreset p pst) = pageStorage pst"
  by (simp_all add: setPreset_def trySetItem_def setItem_def Let_def)

lemma loadState_absent:
  "\<not> getThrows store (str ''theme'') \<Longrightarrow> items store (str ''theme'') = None \<Longrightarrow>
   loadState store = Inr (freshApp store)"
  by (simp add: loadState_def getItem_def orDefault_def freshApp_def)

lemma loadState_throws:
  "getThrows store (str ''theme'') \<Longrightarrow> loadState store = Inl StorageError"
  by (simp add: loadState_def getItem_def)

lemma applyTheme_result:
  "fst (applyTheme th st) =
     (if setThrows (localStorage st) (str ''theme'') then Some StorageError else None)"
  by (simp add: applyTheme_def setItem_def Let_def)

text \<open>
  C7, as the code has it. In the second demo \<open>boot\<close> selects the theme \<open>dark\<close> when the
  saved theme is absent or the read throws, and the preset \<open>friendly\<close> when the saved
  preset is absent or a read throws; \<open>setTheme\<close> and \<open>setPreset\<close> update the state in
  memory and, when the write throws, leave the store as it is. None of the three can fail.
  In \<open>app.js\<close> the theme is \<open>dark\<close> when no theme is saved, but nothing is caught: the
  initialiser of \<open>state\<close> fails when the read throws, and \<open>applyTheme\<close> fails exactly when
  the write throws.
\<close>

theorem storage_failures_by_demo:
  "(getThrows store (str ''chat_theme'') \<or> items store (str ''chat_theme'') = None \<longrightarrow>
      pageTheme (boot e (initialPage bs store)) = str ''dark'')
   \<and> (getThrows store (str ''chat_theme'') \<or> getThrows store (str ''chat_preset'')
        \<or> items store (str ''chat_preset'') = None \<longrightarrow>
      preset (boot e (initialPage bs store)) = str ''friendly'')
   \<and> (setThrows (pageStorage pst) (str ''chat_theme'') \<longrightarrow>
        pageStorage (setTheme th pst) = pageStorage pst)
   \<and> (setThrows (pageStorage pst) (str ''chat_preset'') \<longrightarrow>
        pageStorage (setPreset p pst) = pageStorage pst)
   \<and> pageTheme (setTheme th pst) = (if th = str ''light'' then str ''light'' else str ''dark'')
   \<and> preset (setPreset p pst) = p
   \<and> (\<not> getThrows store (str ''theme'') \<and> items store (str ''theme'') = None \<longrightarrow>
        loadState store = Inr (freshApp store) \<and> theme (freshApp store) = str ''dark'')
   \<and> (getThrows store (str ''theme'') \<longrightarrow> loadState store = Inl StorageError)
   \<and> fst (applyTheme th st) =
        (if setThrows (localStorage st) (str ''theme'') then Some StorageError else None)"
proof -
  have st: "pageStorage (initialPage bs store) = store" by (simp add: initialPage_def)
  have "str ''dark'' \<noteq> str ''light''" by (simp add: str_def)
  then show ?thesis
    using savedSettings_theme_default [of store] savedSettings_preset_default [of store]
      loadState_absent [of store] loadState_throws [of store]
    by (simp add: boot_fields st setTheme_fields setPreset_fields applyTheme_result freshApp_def)
qed

theorem storage_failures_by_demo_witness:
  "getThrows brokenStore (str ''chat_theme'') \<and> setThrows brokenStore (str ''chat_theme'')
   \<and> pageTheme (boot env0 (initialPage [] brokenStore)) = str ''dark''
   \<and> preset (boot env0 (initialPage [] brokenStore)) = str ''friendly''
   \<and> pageStorage (setTheme (str ''light'') (initialPage [] brokenStore)) = brokenStore
   \<and> pageTheme (setTheme (str ''light'') (initialPage [] brokenStore)) = str ''light''
   \<and> pageStorage (setPreset (str ''concise'') (initialPage [] brokenStore)) = brokenStore
   \<and> items emptyStore (str ''theme'') = None
   \<and> loadState emptyStore = Inr (freshApp emptyStore)
   \<and> loadState brokenStore = Inl StorageError"
  using storage_failures_by_demo [of brokenStore env0 "[]" "initialPage [] brokenStore"
      "str ''light''" "str ''concise''" idleApp]
    storage_failures_by_demo [of emptyStore env0 "[]" "initialPage [] brokenStore"
      "str ''light''" "str ''concise''" idleApp]
  by (simp add: brokenStore_def emptyStore_def initialPage_def)

text \<open>
  \<open>app.js\<close> on a store that can be read but not written: the state is built, \<open>init\<close> fails
  in \<open>applyTheme\<close> with the storage error, and the greeting is never shown. On a store
  that cannot be read the initialiser itself fails.
\<close>

theorem app_storage_error_escapes:
  "loadState readOnlyStore = Inr (freshApp readOnlyStore)
   \<and> fst (init env0 (freshApp readOnlyStore)) = Some StorageError
   \<and> chat (snd (init env0 (freshApp readOnlyStore))) = []
   \<and> loadState brokenStore = Inl StorageError"
  by (simp add: loadState_def getItem_def orDefault_def readOnlyStore_def brokenStore_def
      freshApp_def init_def applyTheme_def setItem_def)

section \<open>Unknown script and preset identifiers\<close>

lemma unknown_script_is_empty:
  "map_of scripts key = None \<Longrightarrow> key \<notin> set objectPrototypeKeys \<Longrightarrow>
   scriptClick e key st = (None, st)"
  by (simp add: scriptClick_def getProperty_def)

lemma friendly_is_own:
  "getProperty PRESET_BEHAVIORS (str ''friendly'') = Own (\<lambda>s. friendly_pre @ s @ friendly_post)"
  by (simp add: getProperty_def PRESET_BEHAVIORS_def str_def)

lemma unknown_preset_is_friendly:
  "map_of PRESET_BEHAVIORS p = None \<Longrightarrow> p \<notin> set objectPrototypeKeys \<Longrightarrow>
   presetReply p s = Inr (friendly_pre @ s @ friendly_post)"
proof -
  assume "map_of PRESET_BEHAVIORS p = None" "p \<notin> set objectPrototypeKeys"
  then have "getProperty PRESET_BEHAVIORS p = Undefined" by (simp add: getProperty_def)
  then show ?thesis by (simp add: presetReply_def friendly_is_own)
qed

text \<open>
  C8 at identifiers that name a member of \<open>Object.prototype\<close>. With \<open>constructor\<close> saved as
  the preset, \<open>boot\<close> selects it and the reply to \<open>hi\<close> is \<open>hi\<close> itself, not the reply of
  the preset \<open>friendly\<close> that an unknown identifier such as \<open>nope\<close> gets; with \<open>__proto__\<close>
  the reply fails with a type error. A script button with the key \<open>constructor\<close> fails
  with a type error, where the unknown key \<open>nope\<close> plays nothing.
\<close>

theorem inherited_identifier_bypasses_fallback:
  "preset (boot env0 (initialPage [] ctorStore)) = str ''constructor''
   \<and> presetReply (str ''constructor'') (str ''hi'') = Inr (str ''hi'')
   \<and> presetReply (str ''nope'') (str ''hi'') = Inr (friendly_pre @ str ''hi'' @ friendly_post)
   \<and> presetReply (str ''friendly'') (str ''hi'') = Inr (friendly_pre @ str ''hi'' @ friendly_post)
   \<and> presetReply (str ''__proto__'') (str ''hi'') = Inl TypeError
   \<and> scriptClick env0 (str ''constructor'') idleApp = (Some TypeError, idleApp)
   \<and> scriptClick env0 (str ''nope'') idleApp = (None, idleApp)
   \<and> snd (last (messagesEl (pageRun [] ctorStore env0
          [(env0, ComposerSubmit (str ''hi'')), (env0, ReplyTimerFires 2)])))
       = createMessageEl Bot (str ''hi'') (str ''09:00'')"
proof -
  have boot: "preset (boot env0 (initialPage [] ctorStore)) = str ''constructor''"
    by (simp add: boot_fields savedSettings_def initialPage_def ctorStore_def emptyStore_def
        getItem_def orDefault_def str_def)
  have ctor: "presetReply (str ''constructor'') s = Inr s" for s
    by (simp add: presetReply_def getProperty_def PRESET_BEHAVIORS_def objectPrototypeKeys_def
        callInherited_def str_def)
  have nope: "presetReply (str ''nope'') (str ''hi'') = Inr (friendly_pre @ str ''hi'' @ friendly_post)"
    by (rule unknown_preset_is_friendly)
       (simp_all add: PRESET_BEHAVIORS_def objectPrototypeKeys_def str_def)
  have friendly: "presetReply (str ''friendly'') (str ''hi'')
      = Inr (friendly_pre @ str ''hi'' @ friendly_post)"
    by (simp add: presetReply_def friendly_is_own)
  have proto: "presetReply (str ''__proto__'') (str ''hi'') = Inl TypeError"
    by (simp add: presetReply_def getProperty_def PRESET_BEHAVIORS_def objectPrototypeKeys_def
        callInherited_def str_def)
  have click1: "scriptClick env0 (str ''constructor'') idleApp = (Some TypeError, idleApp)"
    by (simp add: scriptClick_def getProperty_def scripts_def objectPrototypeKeys_def str_def)
  have click2: "scriptClick env0 (str ''nope'') idleApp = (None, idleApp)"
    by (rule unknown_script_is_empty) (simp_all add: scripts_def objectPrototypeKeys_def str_def)
  have sent: "messagesEl (composerSubmit env0 (str ''hi'') (boot env0 (initialPage [] ctorStore)))
      = [(0, createMessageEl Bot welcome_sim (timeStr env0)),
         (1, createMessageEl User (str ''hi'') (timeStr env0)),
         (2, createTypingEl)]
     \<and> map typingEl (replyTimers (composerSubmit env0 (str ''hi'')
          (boot env0 (initialPage [] ctorStore)))) = [2]
     \<and> map userText (replyTimers (composerSubmit env0 (str ''hi'')
          (boot env0 (initialPage [] ctorStore)))) = [str ''hi'']
     \<and> preset (composerSubmit env0 (str ''hi'') (boot env0 (initialPage [] ctorStore)))
          = str ''constructor''"
    by (simp add: composerSubmit_def trim_hi simulateBotReply_def Let_def boot)
       (simp add: boot_def setTheme_def setPreset_def initialPage_def Let_def str_def
          split: prod.splits)
  have fired: "messagesEl (snd (replyTimerFires env0 2
        (composerSubmit env0 (str ''hi'') (boot env0 (initialPage [] ctorStore)))))
      = [(0, createMessageEl Bot welcome_sim (timeStr env0)),
         (1, createMessageEl User (str ''hi'') (timeStr env0)),
         (3, createMessageEl Bot (str ''hi'') (timeStr env0))]"
  proof -
    obtain t where t: "replyTimers (composerSubmit env0 (str ''hi'')
          (boot env0 (initialPage [] ctorStore))) = [t]" "typingEl t = 2" "userText t = str ''hi''"
      using sent by (auto simp add: map_eq_Cons_conv)
    have n: "nextEl (composerSubmit env0 (str ''hi'') (boot env0 (initialPage [] ctorStore))) = 3"
      by (simp add: composerSubmit_def trim_hi simulateBotReply_def Let_def)
         (simp add: boot_def setTheme_def setPreset_def initialPage_def Let_def str_def
            split: prod.splits)
    show ?thesis using sent t n by (simp add: replyTimerFires_def Let_def ctor)
  qed
  have time: "timeStr env0 = str ''09:00''" by (simp add: env0_def)
  show ?thesis
    using boot ctor [of "str ''hi''"] nope friendly proto click1 click2 fired
    by (simp add: pageRun_def time)
qed

section \<open>The stored history\<close>








end
